theory Spec2Isabelle
  imports Main
begin

section \<open>Values of the program\<close>

text \<open>
  Church membership backend (Express controllers over two Mongoose collections,
  Family and Believer). A string is the list of the bytes of its UTF-8 encoding. Object
  ids are strings, as requests carry them; how Mongoose casts a string to an ObjectId,
  and the failure of that cast on a malformed string, are outside this model. A value
  that may be \<open>undefined\<close> or \<open>null\<close> is an \<open>option\<close> with \<open>None\<close> for both,
  except in the body of an update request, where the controller tells the two apart
  (type \<open>field\<close>). The fields \<open>createdAt\<close> and \<open>updatedAt\<close> that Mongoose
  maintains are left out.
\<close>

type_synonym oid = string

text \<open>
  A Date is a point in time, in milliseconds since the epoch. A date field of a request
  is the empty string or a string that denotes a point in time: a request with a string
  that neither \<open>new Date\<close> nor moment can read is not a value of this type.
\<close>

type_synonym instant = int

datatype date = Blank | Date instant

text \<open>The point in time of a date that is not blank.\<close>

fun instantOf :: "date \<Rightarrow> instant" where
  "instantOf (Date t) = t"

datatype 'a field = Undefined | Null | Value 'a

text \<open>JavaScript truthiness of a possibly missing string: \<open>undefined\<close> and \<open>''\<close> are falsy.\<close>

definition truthy :: "string option \<Rightarrow> bool" where
  "truthy v = (case v of None \<Rightarrow> False | Some s \<Rightarrow> s \<noteq> [])"

text \<open>\<open>a || b\<close> on strings.\<close>

definition orElse :: "string option \<Rightarrow> string option \<Rightarrow> string option" where
  "orElse a b = (if truthy a then a else b)"

text \<open>The same on a date field: \<open>undefined\<close> and \<open>''\<close> are falsy.\<close>

definition truthyD :: "date option \<Rightarrow> bool" where
  "truthyD v = (case v of Some (Date t) \<Rightarrow> True | _ \<Rightarrow> False)"

text \<open>
  The white space and the line terminators of ECMAScript, which \<open>String.prototype.trim\<close>
  strips, each in UTF-8: U+0009 to U+000D, U+0020, U+00A0, U+1680, U+2000 to U+200A,
  U+2028, U+2029, U+202F, U+205F, U+3000 and U+FEFF.
\<close>

definition whiteSpace :: "string list" where
  "whiteSpace =
     [[CHR 0x09], [CHR 0x0A], [CHR 0x0B], [CHR 0x0C], [CHR 0x0D], [CHR 0x20],
      [CHR 0xC2, CHR 0xA0], [CHR 0xE1, CHR 0x9A, CHR 0x80],
      [CHR 0xE2, CHR 0x80, CHR 0x80], [CHR 0xE2, CHR 0x80, CHR 0x81],
      [CHR 0xE2, CHR 0x80, CHR 0x82], [CHR 0xE2, CHR 0x80, CHR 0x83],
      [CHR 0xE2, CHR 0x80, CHR 0x84], [CHR 0xE2, CHR 0x80, CHR 0x85],
      [CHR 0xE2, CHR 0x80, CHR 0x86], [CHR 0xE2, CHR 0x80, CHR 0x87],
      [CHR 0xE2, CHR 0x80, CHR 0x88], [CHR 0xE2, CHR 0x80, CHR 0x89],
      [CHR 0xE2, CHR 0x80, CHR 0x8A], [CHR 0xE2, CHR 0x80, CHR 0xA8],
      [CHR 0xE2, CHR 0x80, CHR 0xA9], [CHR 0xE2, CHR 0x80, CHR 0xAF],
      [CHR 0xE2, CHR 0x81, CHR 0x9F], [CHR 0xE3, CHR 0x80, CHR 0x80],
      [CHR 0xEF, CHR 0xBB, CHR 0xBF]]"

definition startsWith :: "string \<Rightarrow> string \<Rightarrow> bool" where
  "startsWith s w = (w \<noteq> [] \<and> take (length w) s = w)"

text \<open>The string without the white space it begins with.\<close>

function dropLeading :: "string list \<Rightarrow> string \<Rightarrow> string" where
  "dropLeading ws s =
     (case find (startsWith s) ws of
        None \<Rightarrow> s
      | Some w \<Rightarrow> dropLeading ws (drop (length w) s))"
  by pat_completeness auto
termination
proof (relation "measure (\<lambda>p. length (snd p))")
  show "wf (measure (\<lambda>p. length (snd p)))" by simp
next
  fix ws :: "string list" and s w :: string
  assume "find (startsWith s) ws = Some w"
  then have "startsWith s w" by (induction ws) (auto split: if_splits)
  then have w: "w \<noteq> []" and t: "take (length w) s = w" by (simp_all add: startsWith_def)
  have "length w = min (length s) (length w)" using arg_cong[OF t, of length] by simp
  then have "length w \<le> length s" by simp
  moreover have "0 < length w" using w by simp
  ultimately have "length s - length w < length s" by arith
  then show "((ws, drop (length w) s), (ws, s)) \<in> measure (\<lambda>p. length (snd p))"
    by simp
qed

declare dropLeading.simps [simp del]

text \<open>\<open>String.prototype.trim\<close>: the white space is stripped from both ends.\<close>

definition trim :: "string \<Rightarrow> string" where
  "trim s = rev (dropLeading (map rev whiteSpace) (rev (dropLeading whiteSpace s)))"

text \<open>\<open>v?.trim()\<close>: \<open>undefined\<close> stays \<open>undefined\<close>.\<close>

definition trimOpt :: "string option \<Rightarrow> string option" where
  "trimOpt v = map_option trim v"

definition isDigit :: "char \<Rightarrow> bool" where
  "isDigit c = (c \<in> set ''0123456789'')"

text \<open>The regular expression \<open>/^\d{10}$/\<close>.\<close>

definition tenDigits :: "string \<Rightarrow> bool" where
  "tenDigits s = (length s = 10 \<and> list_all isDigit s)"

text \<open>\<open>String(n)\<close> for a non-negative integer, and \<open>padStart(w, '0')\<close>.\<close>

definition digitChar :: "nat \<Rightarrow> char" where
  "digitChar d = ''0123456789'' ! d"

function String_of :: "nat \<Rightarrow> string" where
  "String_of n = (if n < 10 then [digitChar n] else String_of (n div 10) @ [digitChar (n mod 10)])"
  by pat_completeness auto
termination
  by (relation "measure (\<lambda>n. n)") auto

declare String_of.simps [simp del]

definition padStart :: "nat \<Rightarrow> char \<Rightarrow> string \<Rightarrow> string" where
  "padStart w c s = replicate (w - length s) c @ s"

section \<open>The clock: utils/helpers.js\<close>

text \<open>
  The wall clock and the libraries are the environment: \<open>now\<close> is \<open>new Date()\<close>,
  \<open>yearsSince d\<close> is \<open>momentTz().tz(TIMEZONE).diff(momentTz(d).tz(TIMEZONE), 'years')\<close>,
  and \<open>toLowerCase\<close> is \<open>String.prototype.toLowerCase\<close>, the lower-case mapping of
  Unicode.
\<close>

record env =
  now :: instant
  yearsSince :: "instant \<Rightarrow> int"
  toLowerCase :: "string \<Rightarrow> string"

definition calcAgeIST :: "env \<Rightarrow> date \<Rightarrow> int" where
  "calcAgeIST e dob = yearsSince e (instantOf dob)"

text \<open>\<open>calcAge\<close> of helpers.js returns \<open>null\<close> for a missing date.\<close>

definition calcAge :: "env \<Rightarrow> date option \<Rightarrow> int option" where
  "calcAge e dob = (if \<not> truthyD dob then None else Some (yearsSince e (instantOf (the dob))))"

text \<open>\<open>age < 18\<close> on the result of \<open>calcAge\<close>: \<open>null < 18\<close> is true in JavaScript.\<close>

definition under18 :: "int option \<Rightarrow> bool" where
  "under18 age = (case age of None \<Rightarrow> True | Some n \<Rightarrow> n < 18)"

definition suggestMemberType :: "int \<Rightarrow> string \<Rightarrow> string" where
  "suggestMemberType age maritalStatus =
     (if age \<le> 12 then ''Child''
      else if age \<le> 30 \<and> maritalStatus = ''Single'' then ''Youth''
      else ''Member'')"

text \<open>The classifier as the specification words it.\<close>

definition classifyMemberType_spec :: "int \<Rightarrow> string \<Rightarrow> string" where
  "classifyMemberType_spec age maritalStatus =
     (if age < 13 then ''Child''
      else if 13 \<le> age \<and> age \<le> 30 \<and> maritalStatus = ''Single'' then ''Youth''
      else ''Member'')"

section \<open>Documents: models/Family.js and models/Believer.js\<close>

definition TN_DISTRICTS :: "string list" where
  "TN_DISTRICTS =
    [''Ariyalur'', ''Chengalpattu'', ''Chennai'', ''Coimbatore'', ''Cuddalore'',
     ''Dharmapuri'', ''Dindigul'', ''Erode'', ''Kallakurichi'', ''Kancheepuram'',
     ''Kanyakumari'', ''Karur'', ''Krishnagiri'', ''Madurai'', ''Mayiladuthurai'',
     ''Nagapattinam'', ''Namakkal'', ''Nilgiris'', ''Perambalur'', ''Pudukkottai'',
     ''Ramanathapuram'', ''Ranipet'', ''Salem'', ''Sivaganga'', ''Tenkasi'',
     ''Thanjavur'', ''Theni'', ''Thoothukudi'', ''Tiruchirappalli'', ''Tirunelveli'',
     ''Tirupathur'', ''Tiruppur'', ''Tiruvallur'', ''Tiruvannamalai'', ''Tiruvarur'',
     ''Vellore'', ''Viluppuram'', ''Virudhunagar'']"

record family =
  fam_id :: oid
  familyCode :: "string option"
  address :: string
  village :: string
  district :: string
  familyStatus :: string
  headId :: "oid option"
  fam_isDeleted :: bool
  fam_deletedAt :: "instant option"

record believer =
  bel_id :: oid
  familyId :: oid
  isHead :: bool
  fullName :: string
  dob :: instant
  gender :: string
  phone :: "string option"
  email :: "string option"
  memberType :: string
  membershipStatus :: "string option"
  joinDate :: "instant option"
  baptized :: "string option"
  baptizedDate :: "instant option"
  relationshipToHead :: string
  relationCustom :: "string option"
  maritalStatus :: string
  spouseId :: "oid option"
  spouseName :: "string option"
  weddingDate :: "instant option"
  occupationCategory :: string
  educationLevel :: "string option"
  isDeleted :: bool
  deletedAt :: "instant option"

text \<open>The store: the two collections, each in insertion order.\<close>

record db =
  families :: "family list"
  believers :: "believer list"

subsection \<open>Errors and responses\<close>

text \<open>
  \<open>AppError message statusCode\<close> is the controllers' own error; the others are thrown
  by the runtime, by Mongoose validation and by the unique index. A controller either
  passes an error to \<open>next\<close> (\<open>Inl\<close>) or sends a response (\<open>Inr\<close>). The payload
  \<open>data\<close> of a response is left out.
\<close>

datatype error =
    AppError string nat
  | ReferenceError string
  | ValidationError
  | DuplicateKeyError

record response =
  status :: nat
  code :: "string option"
  message :: string
  count :: "nat option"

type_synonym result = "(error + response) \<times> db"

text \<open>globalErrorHandler: \<open>err.statusCode = err.statusCode || 500\<close>.\<close>

fun statusCode :: "error \<Rightarrow> nat" where
  "statusCode (AppError m c) = c"
| "statusCode (ReferenceError m) = 500"
| "statusCode ValidationError = 500"
| "statusCode DuplicateKeyError = 500"

definition httpStatus :: "error + response \<Rightarrow> nat" where
  "httpStatus r = (case r of Inl e \<Rightarrow> statusCode e | Inr a \<Rightarrow> status a)"

definition ok :: "nat \<Rightarrow> string \<Rightarrow> error + response" where
  "ok c m = Inr \<lparr>status = c, code = None, message = m, count = None\<rparr>"

subsection \<open>Collection operations\<close>

definition findOne :: "('a \<Rightarrow> bool) \<Rightarrow> 'a list \<Rightarrow> 'a option" where
  "findOne P xs = find P xs"

fun updateOne :: "('a \<Rightarrow> bool) \<Rightarrow> ('a \<Rightarrow> 'a) \<Rightarrow> 'a list \<Rightarrow> 'a list" where
  "updateOne P f [] = []"
| "updateOne P f (x # xs) = (if P x then f x # xs else x # updateOne P f xs)"

definition updateMany :: "('a \<Rightarrow> bool) \<Rightarrow> ('a \<Rightarrow> 'a) \<Rightarrow> 'a list \<Rightarrow> 'a list" where
  "updateMany P f xs = map (\<lambda>x. if P x then f x else x) xs"

fun deleteOne :: "('a \<Rightarrow> bool) \<Rightarrow> 'a list \<Rightarrow> 'a list" where
  "deleteOne P [] = []"
| "deleteOne P (x # xs) = (if P x then xs else x # deleteOne P xs)"

definition deleteMany :: "('a \<Rightarrow> bool) \<Rightarrow> 'a list \<Rightarrow> 'a list" where
  "deleteMany P xs = filter (\<lambda>x. \<not> P x) xs"

definition countDocuments :: "('a \<Rightarrow> bool) \<Rightarrow> 'a list \<Rightarrow> nat" where
  "countDocuments P xs = length (filter P xs)"

definition Believer_findById :: "oid \<Rightarrow> db \<Rightarrow> believer option" where
  "Believer_findById i s = findOne (\<lambda>b. bel_id b = i) (believers s)"

definition Believer_findByIdAndUpdate :: "oid \<Rightarrow> (believer \<Rightarrow> believer) \<Rightarrow> db \<Rightarrow> db" where
  "Believer_findByIdAndUpdate i f s =
     s\<lparr>believers := updateOne (\<lambda>b. bel_id b = i) f (believers s)\<rparr>"

subsection \<open>The Believer schema\<close>

text \<open>
  The cast of a Date path: the empty string is cast to \<open>null\<close>. A document given to
  \<open>Believer.create\<close> is written here with its dates cast.
\<close>

definition castDate :: "date option \<Rightarrow> instant option" where
  "castDate v = (case v of Some (Date t) \<Rightarrow> Some t | _ \<Rightarrow> None)"

text \<open>The setters of the schema: \<open>trim\<close> and \<open>lowercase\<close>.\<close>

definition believerSchema_cast :: "env \<Rightarrow> believer \<Rightarrow> believer" where
  "believerSchema_cast e b =
     b\<lparr>fullName := trim (fullName b),
       email := map_option (\<lambda>v. toLowerCase e (trim v)) (email b),
       relationCustom := trimOpt (relationCustom b),
       spouseName := trimOpt (spouseName b)\<rparr>"

definition phoneValidator :: "string option \<Rightarrow> bool" where
  "phoneValidator v = (if truthy v then tenDigits (the v) else True)"

definition inEnum :: "string list \<Rightarrow> string \<Rightarrow> bool" where
  "inEnum vs v = (v \<in> set vs)"

definition optEnum :: "string list \<Rightarrow> string option \<Rightarrow> bool" where
  "optEnum vs v = (case v of None \<Rightarrow> True | Some x \<Rightarrow> x \<in> set vs)"

definition relationEnum :: "string list" where
  "relationEnum =
     [''Self'', ''Wife'', ''Husband'', ''Son'', ''Daughter'', ''Father'', ''Mother'', ''Other'']"

definition occupationEnum :: "string list" where
  "occupationEnum =
     [''Child'', ''Student'', ''Ministry'', ''Employed'', ''Self-Employed'', ''Business'',
      ''Agriculture'', ''Daily wages'', ''House-Wife'', ''Non-Worker'', ''Retired'']"

text \<open>
  The validators of the schema: \<open>required\<close>, \<open>enum\<close> and the phone validator. The
  required \<open>dob\<close> is there by its type.
\<close>

definition believerSchema_validate :: "believer \<Rightarrow> bool" where
  "believerSchema_validate b =
     (fullName b \<noteq> [] \<and>
      inEnum [''Male'', ''Female'', ''Other''] (gender b) \<and>
      phoneValidator (phone b) \<and>
      inEnum [''Member'', ''Youth'', ''Child''] (memberType b) \<and>
      optEnum [''Active'', ''Inactive''] (membershipStatus b) \<and>
      baptized b \<noteq> None \<and> optEnum [''Yes'', ''No''] (baptized b) \<and>
      inEnum relationEnum (relationshipToHead b) \<and>
      inEnum [''Single'', ''Married'', ''Widowed''] (maritalStatus b) \<and>
      inEnum occupationEnum (occupationCategory b) \<and>
      optEnum [''School'', ''College''] (educationLevel b))"

text \<open>
  \<open>Believer.create(doc)\<close>: the setters run, the document is validated and inserted.
  The new \<open>_id\<close> is the fresh ObjectId the driver generates, given as \<open>newId\<close>.
\<close>

definition Believer_create :: "env \<Rightarrow> believer \<Rightarrow> db \<Rightarrow> error + (believer \<times> db)" where
  "Believer_create e doc s =
     (let b = believerSchema_cast e doc in
      if believerSchema_validate b
      then Inr (b, s\<lparr>believers := believers s @ [b]\<rparr>)
      else Inl ValidationError)"

section \<open>controllers/believer.controller.js\<close>

text \<open>
  The body of an update request: the editable fields, and the three locked ones, of which
  only being defined matters.
\<close>

record update_fields =
  u_fullName :: "string field"
  u_dob :: "date field"
  u_gender :: "string field"
  u_phone :: "string field"
  u_email :: "string field"
  u_memberType :: "string field"
  u_membershipStatus :: "string field"
  u_joinDate :: "date field"
  u_baptized :: "string field"
  u_baptizedDate :: "date field"
  u_maritalStatus :: "string field"
  u_weddingDate :: "date field"
  u_spouseId :: "string field"
  u_spouseName :: "string field"
  u_occupationCategory :: "string field"
  u_educationLevel :: "string field"

record update_body = update_fields +
  u_familyId :: "string field"
  u_isHead :: "string field"
  u_relationshipToHead :: "string field"

definition truthyF :: "string field \<Rightarrow> bool" where
  "truthyF f = (case f of Value v \<Rightarrow> v \<noteq> [] | _ \<Rightarrow> False)"

definition toOption :: "'a field \<Rightarrow> 'a option" where
  "toOption f = (case f of Value v \<Rightarrow> Some v | _ \<Rightarrow> None)"

definition valueOf :: "string field \<Rightarrow> string" where
  "valueOf f = (case f of Value v \<Rightarrow> v | _ \<Rightarrow> [])"

fun join :: "string \<Rightarrow> string list \<Rightarrow> string" where
  "join sep [] = []"
| "join sep [x] = x"
| "join sep (x # y # ys) = x @ sep @ join sep (y # ys)"

text \<open>\<open>LOCKED_FIELDS.filter((f) => req.body[f] !== undefined)\<close>\<close>

definition attemptedLocked :: "update_body \<Rightarrow> string list" where
  "attemptedLocked body =
     map fst (filter (\<lambda>p. snd p \<noteq> Undefined)
       [(''familyId'', u_familyId body), (''isHead'', u_isHead body),
        (''relationshipToHead'', u_relationshipToHead body)])"

definition sanitizeUpdateData :: "update_body \<Rightarrow> update_fields" where
  "sanitizeUpdateData raw =
     \<lparr>u_fullName = u_fullName raw,
      u_dob = u_dob raw,
      u_gender = u_gender raw,
      u_phone = u_phone raw,
      u_email = u_email raw,
      u_memberType = u_memberType raw,
      u_membershipStatus = u_membershipStatus raw,
      u_joinDate = u_joinDate raw,
      u_baptized = u_baptized raw,
      u_baptizedDate = u_baptizedDate raw,
      u_maritalStatus = u_maritalStatus raw,
      u_weddingDate = (if u_weddingDate raw \<noteq> Value Blank then u_weddingDate raw else Undefined),
      u_spouseId =
        (if u_spouseId raw = Undefined then Undefined
         else if u_spouseId raw = Value [] \<or> u_spouseId raw = Value ''null'' then Null
         else u_spouseId raw),
      u_spouseName = u_spouseName raw,
      u_occupationCategory = u_occupationCategory raw,
      u_educationLevel =
        (if u_educationLevel raw \<noteq> Value [] then u_educationLevel raw else Undefined)\<rparr>"

text \<open>The under-18 rule of \<open>updateBeliever\<close>, the same in both of its branches.\<close>

definition forceSingle :: "update_fields \<Rightarrow> update_fields" where
  "forceSingle u = u\<lparr>u_maritalStatus := Value ''Single'', u_spouseId := Null,
                      u_weddingDate := Undefined\<rparr>"

text \<open>
  \<open>findOneAndUpdate(filter, updateData, {runValidators: true})\<close>: the update validators
  (a required path cannot be set to null or to the empty string, an enumerated path
  takes a listed value), then the cast of each path that is set.
\<close>

definition requiredEnum :: "string list \<Rightarrow> string field \<Rightarrow> bool" where
  "requiredEnum vs f = (case f of Undefined \<Rightarrow> True | Null \<Rightarrow> False | Value v \<Rightarrow> v \<in> set vs)"

definition optionalEnum :: "string list \<Rightarrow> string field \<Rightarrow> bool" where
  "optionalEnum vs f = (case f of Value v \<Rightarrow> v \<in> set vs | _ \<Rightarrow> True)"

definition requiredField :: "string field \<Rightarrow> bool" where
  "requiredField f = (case f of Undefined \<Rightarrow> True | Null \<Rightarrow> False | Value v \<Rightarrow> trim v \<noteq> [])"

definition requiredDate :: "date field \<Rightarrow> bool" where
  "requiredDate f = (case f of Undefined \<Rightarrow> True | Null \<Rightarrow> False | Value v \<Rightarrow> v \<noteq> Blank)"

definition updateValidators :: "update_fields \<Rightarrow> bool" where
  "updateValidators u =
     (requiredField (u_fullName u) \<and> requiredDate (u_dob u) \<and>
      requiredEnum [''Male'', ''Female'', ''Other''] (u_gender u) \<and>
      phoneValidator (toOption (u_phone u)) \<and>
      requiredEnum [''Member'', ''Youth'', ''Child''] (u_memberType u) \<and>
      optionalEnum [''Active'', ''Inactive''] (u_membershipStatus u) \<and>
      requiredEnum [''Yes'', ''No''] (u_baptized u) \<and>
      requiredEnum [''Single'', ''Married'', ''Widowed''] (u_maritalStatus u) \<and>
      requiredEnum occupationEnum (u_occupationCategory u) \<and>
      optionalEnum [''School'', ''College''] (u_educationLevel u))"

definition setStr :: "string field \<Rightarrow> string \<Rightarrow> string" where
  "setStr f old = (case f of Value v \<Rightarrow> v | _ \<Rightarrow> old)"

definition setOpt :: "string field \<Rightarrow> string option \<Rightarrow> string option" where
  "setOpt f old = (case f of Undefined \<Rightarrow> old | Null \<Rightarrow> None | Value v \<Rightarrow> Some v)"

definition setDate :: "date field \<Rightarrow> instant option \<Rightarrow> instant option" where
  "setDate f old = (case f of Undefined \<Rightarrow> old | Null \<Rightarrow> None | Value v \<Rightarrow> castDate (Some v))"

definition mapField :: "('a \<Rightarrow> 'b) \<Rightarrow> 'a field \<Rightarrow> 'b field" where
  "mapField g f = (case f of Undefined \<Rightarrow> Undefined | Null \<Rightarrow> Null | Value v \<Rightarrow> Value (g v))"

definition applyUpdate :: "env \<Rightarrow> update_fields \<Rightarrow> believer \<Rightarrow> believer" where
  "applyUpdate e u b =
     b\<lparr>fullName := setStr (mapField trim (u_fullName u)) (fullName b),
       dob := (case castDate (toOption (u_dob u)) of None \<Rightarrow> dob b | Some t \<Rightarrow> t),
       gender := setStr (u_gender u) (gender b),
       phone := setOpt (u_phone u) (phone b),
       email := setOpt (mapField (\<lambda>v. toLowerCase e (trim v)) (u_email u)) (email b),
       memberType := setStr (u_memberType u) (memberType b),
       membershipStatus := setOpt (u_membershipStatus u) (membershipStatus b),
       joinDate := setDate (u_joinDate u) (joinDate b),
       baptized := setOpt (u_baptized u) (baptized b),
       baptizedDate := setDate (u_baptizedDate u) (baptizedDate b),
       maritalStatus := setStr (u_maritalStatus u) (maritalStatus b),
       weddingDate := setDate (u_weddingDate u) (weddingDate b),
       spouseId := setOpt (u_spouseId u) (spouseId b),
       spouseName := setOpt (mapField trim (u_spouseName u)) (spouseName b),
       occupationCategory := setStr (u_occupationCategory u) (occupationCategory b),
       educationLevel := setOpt (u_educationLevel u) (educationLevel b)\<rparr>"

text \<open>The age rule: on the new \<open>dob\<close> when the request has one, else on the stored one.\<close>

definition ageRule :: "env \<Rightarrow> oid \<Rightarrow> update_fields \<Rightarrow> db \<Rightarrow> error + update_fields" where
  "ageRule e i updateData s =
     (if truthyD (toOption (u_dob updateData)) then
        (let age = calcAge e (toOption (u_dob updateData)) in
         if under18 age then Inr (forceSingle updateData) else Inr updateData)
      else
        (case Believer_findById i s of
           None \<Rightarrow> Inl (AppError ''Believer not found.'' 404)
         | Some current \<Rightarrow>
             (let age = calcAge e (Some (Date (dob current))) in
              if under18 age then Inr (forceSingle updateData) else Inr updateData)))"

text \<open>
  The last step of \<open>updateBeliever\<close>, on the store as the update left it: \<open>old\<close> is
  read by \<open>Believer.findById(req.params.id)\<close> after \<open>findOneAndUpdate\<close> has run.
\<close>

definition syncSpouse :: "oid \<Rightarrow> update_fields \<Rightarrow> believer \<Rightarrow> db \<Rightarrow> db" where
  "syncSpouse i updateData believer s =
     (if truthyF (u_spouseId updateData) then
        Believer_findByIdAndUpdate (valueOf (u_spouseId updateData))
          (\<lambda>t. t\<lparr>spouseId := Some (bel_id believer)\<rparr>) s
      else if u_spouseId updateData = Null then
        (case Believer_findById i s of
           None \<Rightarrow> s
         | Some old \<Rightarrow>
             (case spouseId old of
                None \<Rightarrow> s
              | Some sp \<Rightarrow> Believer_findByIdAndUpdate sp (\<lambda>t. t\<lparr>spouseId := None\<rparr>) s))
      else s)"

definition updateBeliever :: "env \<Rightarrow> oid \<Rightarrow> update_body \<Rightarrow> db \<Rightarrow> result" where
  "updateBeliever e i body s =
     (if attemptedLocked body \<noteq> [] then
        (Inl (AppError (''Cannot edit: '' @ join '', '' (attemptedLocked body) @ ''.'') 400), s)
      else
        (let updateData = sanitizeUpdateData body in
         if truthyF (u_phone updateData) \<and> \<not> tenDigits (valueOf (u_phone updateData)) then
           (Inl (AppError ''Phone number must be exactly 10 digits.'' 400), s)
         else
           (case ageRule e i updateData s of
              Inl err \<Rightarrow> (Inl err, s)
            | Inr updateData \<Rightarrow>
                (let updateData =
                       (if u_baptized updateData = Value ''No''
                        then updateData\<lparr>u_baptizedDate := Null\<rparr> else updateData) in
                 if \<not> updateValidators updateData then (Inl ValidationError, s)
                 else
                   (case findOne (\<lambda>b. bel_id b = i \<and> \<not> isDeleted b) (believers s) of
                      None \<Rightarrow> (Inl (AppError ''Believer not found.'' 404), s)
                    | Some found \<Rightarrow>
                        (let s1 = s\<lparr>believers :=
                                     updateOne (\<lambda>b. bel_id b = i \<and> \<not> isDeleted b)
                                       (applyUpdate e updateData) (believers s)\<rparr>;
                             believer = applyUpdate e updateData found
                         in (ok 200 ''Believer updated successfully.'',
                             syncSpouse i updateData believer s1)))))))"

text \<open>
  \<open>doc.save()\<close> of a loaded document writes the paths that were assigned to the stored
  document with that \<open>_id\<close>. The stored documents passed the validators of the schema
  when they were written; the validation that \<open>save()\<close> runs again is not modelled.
\<close>

definition Believer_save :: "oid \<Rightarrow> (believer \<Rightarrow> believer) \<Rightarrow> db \<Rightarrow> db" where
  "Believer_save i f s = s\<lparr>believers := updateOne (\<lambda>b. bel_id b = i) f (believers s)\<rparr>"

definition deleteBeliever :: "env \<Rightarrow> oid \<Rightarrow> db \<Rightarrow> result" where
  "deleteBeliever e i s =
     (case findOne (\<lambda>b. bel_id b = i \<and> \<not> isDeleted b) (believers s) of
        None \<Rightarrow> (Inl (AppError ''Believer not found.'' 404), s)
      | Some believer \<Rightarrow>
          if isHead believer then
            (Inr \<lparr>status = 409, code = Some ''IS_HEAD'',
                  message = ''This member is the family head. Assign a new head before deleting.'',
                  count = None\<rparr>, s)
          else
            (let s1 = Believer_save (bel_id believer)
                        (\<lambda>b. b\<lparr>isDeleted := True, deletedAt := Some (now e)\<rparr>) s;
                 s2 = (case spouseId believer of
                         None \<Rightarrow> s1
                       | Some sp \<Rightarrow>
                           Believer_findByIdAndUpdate sp
                             (\<lambda>t. t\<lparr>spouseId := None,
                                    spouseName := Some (trim (fullName believer))\<rparr>) s1)
             in (ok 200 ''Believer moved to trash.'', s2)))"

definition restoreBeliever :: "oid \<Rightarrow> db \<Rightarrow> result" where
  "restoreBeliever i s =
     (case findOne (\<lambda>b. bel_id b = i \<and> isDeleted b) (believers s) of
        None \<Rightarrow> (Inl (AppError ''Trashed believer not found.'' 404), s)
      | Some believer \<Rightarrow>
          (case findOne (\<lambda>f. fam_id f = familyId believer \<and> \<not> fam_isDeleted f) (families s) of
             None \<Rightarrow>
               (Inl (AppError
                 ''Cannot restore: this believer's family is also in trash. Restore the family first.''
                 409), s)
           | Some fam \<Rightarrow>
               (ok 200 (fullName believer @ '' restored successfully.''),
                Believer_save (bel_id believer)
                  (\<lambda>b. b\<lparr>isDeleted := False, deletedAt := None\<rparr>) s)))"

definition permanentDeleteBeliever :: "oid \<Rightarrow> db \<Rightarrow> result" where
  "permanentDeleteBeliever i s =
     (case findOne (\<lambda>b. bel_id b = i \<and> isDeleted b) (believers s) of
        None \<Rightarrow>
          (Inl (AppError
            ''Believer not found in trash. Only trashed records can be permanently deleted.''
            404), s)
      | Some believer \<Rightarrow>
          (ok 200 (fullName believer @ '' permanently deleted.''),
           s\<lparr>believers := deleteOne (\<lambda>b. bel_id b = i) (believers s)\<rparr>))"

definition emptyBelieverTrash :: "db \<Rightarrow> result" where
  "emptyBelieverTrash s =
     (let deletedCount = countDocuments isDeleted (believers s) in
      (Inr \<lparr>status = 200, code = None,
            message = String_of deletedCount @ '' believer(s) permanently deleted from trash.'',
            count = Some deletedCount\<rparr>,
       s\<lparr>believers := deleteMany isDeleted (believers s)\<rparr>))"

section \<open>controllers/family.controller.js\<close>

subsection \<open>The Family schema and its pre-save hook\<close>

definition familySchema_validate :: "family \<Rightarrow> bool" where
  "familySchema_validate f =
     (address f \<noteq> [] \<and> village f \<noteq> [] \<and> district f \<noteq> [] \<and>
      inEnum TN_DISTRICTS (district f) \<and> inEnum [''Active'', ''Inactive''] (familyStatus f))"

text \<open>\<open>`FAM-${String(count + 1).padStart(4, '0')}`\<close>\<close>

definition famCode :: "nat \<Rightarrow> string" where
  "famCode cnt = ''FAM-'' @ padStart 4 (CHR ''0'') (String_of (cnt + 1))"

text \<open>
  \<open>familySchema.pre('save')\<close>, given \<open>this.isNew\<close> and \<open>this.isModified('isDeleted')\<close>.
\<close>

definition familySchema_preSave :: "bool \<Rightarrow> bool \<Rightarrow> family \<Rightarrow> db \<Rightarrow> family" where
  "familySchema_preSave isNew modifiedIsDeleted this s =
     (let this1 =
            (if isNew \<and> \<not> truthy (familyCode this) \<and> \<not> fam_isDeleted this
             then this\<lparr>familyCode :=
                         Some (famCode (countDocuments (\<lambda>f. \<not> fam_isDeleted f) (families s)))\<rparr>
             else this)
      in if modifiedIsDeleted \<and> fam_isDeleted this1 \<and> truthy (familyCode this1)
         then this1\<lparr>familyCode := None\<rparr> else this1)"

text \<open>
  The index \<open>{familyCode: 1}, {unique: true, sparse: true}\<close>, as the schema's comments
  and the specification read it: a code that is not null is held by one family only.
  A write that sets such a code while another family holds it fails.
\<close>

definition familyCode_conflict :: "family \<Rightarrow> family list \<Rightarrow> bool" where
  "familyCode_conflict doc fs =
     (case familyCode doc of
        None \<Rightarrow> False
      | Some c \<Rightarrow> find (\<lambda>f. fam_id f \<noteq> fam_id doc \<and> familyCode f = Some c) fs \<noteq> None)"

text \<open>
  \<open>family.save()\<close> of a loaded family: the hook runs, then the assigned paths are
  written to the stored document with that \<open>_id\<close>.
\<close>

definition Family_save :: "family \<Rightarrow> family \<Rightarrow> db \<Rightarrow> error + db" where
  "Family_save loaded this s =
     (let this1 = familySchema_preSave False (fam_isDeleted this \<noteq> fam_isDeleted loaded) this s
      in if familyCode this1 \<noteq> familyCode loaded \<and> familyCode_conflict this1 (families s)
         then Inl DuplicateKeyError
         else Inr (s\<lparr>families := updateOne (\<lambda>f. fam_id f = fam_id this1) (\<lambda>f. this1) (families s)\<rparr>))"

subsection \<open>Request bodies and helpers\<close>

record member_body =
  d_fullName :: "string option"
  d_dob :: "date option"
  d_gender :: "string option"
  d_relationshipToHead :: "string option"
  d_relationCustom :: "string option"
  d_memberType :: "string option"
  d_occupationCategory :: "string option"
  d_phone :: "string option"
  d_email :: "string option"
  d_membershipStatus :: "string option"
  d_joinDate :: "date option"
  d_baptized :: "string option"
  d_baptizedDate :: "date option"
  d_maritalStatus :: "string option"
  d_spouseId :: "string option"
  d_spouseName :: "string option"
  d_weddingDate :: "date option"
  d_educationLevel :: "string option"

record family_body =
  b_address :: "string option"
  b_village :: "string option"
  b_district :: "string option"
  b_familyStatus :: "string option"
  b_head :: "member_body option"

definition resolveOccupation :: "int \<Rightarrow> string option \<Rightarrow> string" where
  "resolveOccupation age provided =
     (if age \<le> 5 then ''Child'' else if truthy provided then the provided else ''Non-Worker'')"

definition validateBelieverFields :: "member_body \<Rightarrow> string option" where
  "validateBelieverFields data =
     (if truthy (d_phone data) \<and> \<not> tenDigits (the (d_phone data))
      then Some ''Phone must be exactly 10 digits.'' else None)"

definition fail :: "string \<Rightarrow> nat \<Rightarrow> db \<Rightarrow> result" where
  "fail m c s = (Inl (AppError m c), s)"

subsection \<open>createFamily\<close>

text \<open>
  The names that \<open>const { address, village, familyStatus, head } = req.body\<close> binds to
  strings in the body of \<open>createFamily\<close> (\<open>head\<close> is bound too, to an object). The
  module binds \<open>mongoose\<close>, \<open>momentTz\<close>, \<open>Family\<close>, \<open>Believer\<close>, \<open>AppError\<close>,
  \<open>catchAsync\<close>, \<open>TN_DISTRICTS\<close>, \<open>TIMEZONE\<close> and its own functions. Reading a name
  that nothing binds throws a ReferenceError.
\<close>

definition createFamily_bindings :: "family_body \<Rightarrow> (string \<times> string option) list" where
  "createFamily_bindings body =
     [(''address'', b_address body), (''village'', b_village body),
      (''familyStatus'', b_familyStatus body)]"

definition readName :: "(string \<times> string option) list \<Rightarrow> string \<Rightarrow> error + string option" where
  "readName scope x =
     (case map_of scope x of
        None \<Rightarrow> Inl (ReferenceError (x @ '' is not defined''))
      | Some v \<Rightarrow> Inr v)"

definition headField :: "family_body \<Rightarrow> (member_body \<Rightarrow> 'a option) \<Rightarrow> 'a option" where
  "headField body g = (case b_head body of None \<Rightarrow> None | Some h \<Rightarrow> g h)"

text \<open>The checks of \<open>createFamily\<close> on the head, in the order of the source.\<close>

definition createFamily_headChecks :: "family_body \<Rightarrow> string option" where
  "createFamily_headChecks body =
     (if \<not> truthy (trimOpt (headField body d_fullName)) then Some ''Head full name is required.''
      else if \<not> truthyD (headField body d_dob) then Some ''Head date of birth is required.''
      else if \<not> truthy (headField body d_gender) then Some ''Head gender is required.''
      else if \<not> truthy (headField body d_maritalStatus) then Some ''Head marital status is required.''
      else if \<not> truthy (headField body d_baptized) then Some ''Head baptized status is required.''
      else if \<not> truthy (headField body d_memberType) then Some ''Head member type is required.''
      else if \<not> truthy (headField body d_occupationCategory) then Some ''Head occupation is required.''
      else validateBelieverFields (the (b_head body)))"

definition headData :: "env \<Rightarrow> oid \<Rightarrow> oid \<Rightarrow> member_body \<Rightarrow> believer" where
  "headData e newHeadId famId head =
     (let age = calcAgeIST e (the (d_dob head));
          ms = (if age < 18 then Some ''Single'' else d_maritalStatus head)
      in \<lparr>bel_id = newHeadId,
          familyId = famId,
          isHead = True,
          fullName = trim (the (d_fullName head)),
          dob = instantOf (the (d_dob head)),
          gender = the (d_gender head),
          phone = orElse (d_phone head) None,
          email = orElse (trimOpt (d_email head)) None,
          memberType = the (d_memberType head),
          membershipStatus = orElse (d_membershipStatus head) (Some ''Active''),
          joinDate = castDate (d_joinDate head),
          baptized = d_baptized head,
          baptizedDate = (if d_baptized head = Some ''Yes'' then castDate (d_baptizedDate head) else None),
          relationshipToHead = ''Self'',
          relationCustom = None,
          maritalStatus = the ms,
          spouseId = None,
          spouseName = (if ms = Some ''Married'' then d_spouseName head else None),
          weddingDate = (if ms = Some ''Married'' then castDate (d_weddingDate head) else None),
          occupationCategory = resolveOccupation age (d_occupationCategory head),
          educationLevel =
            (if d_occupationCategory head = Some ''Student'' \<and> truthy (d_educationLevel head)
             then d_educationLevel head else None),
          isDeleted = False,
          deletedAt = None\<rparr>)"

text \<open>
  The transaction of \<open>createFamily\<close>: an error aborts it and leaves the store as it
  was. \<open>newFamId\<close> and \<open>newHeadId\<close> are the ObjectIds generated for the two documents.
\<close>

definition createFamily_transaction ::
  "env \<Rightarrow> oid \<Rightarrow> oid \<Rightarrow> family_body \<Rightarrow> string \<Rightarrow> db \<Rightarrow> result" where
  "createFamily_transaction e newFamId newHeadId body distr s =
     (let family0 = \<lparr>fam_id = newFamId, familyCode = None,
                      address = trim (the (b_address body)),
                      village = trim (the (b_village body)),
                      district = trim distr,
                      familyStatus = the (orElse (b_familyStatus body) (Some ''Active'')),
                      headId = None, fam_isDeleted = False, fam_deletedAt = None\<rparr>;
          family = familySchema_preSave True False family0 s
      in if \<not> familySchema_validate family then (Inl ValidationError, s)
         else if familyCode_conflict family (families s) then (Inl DuplicateKeyError, s)
         else
           (case Believer_create e (headData e newHeadId (fam_id family) (the (b_head body)))
                   (s\<lparr>families := families s @ [family]\<rparr>) of
              Inl err \<Rightarrow> (Inl err, s)
            | Inr (headBeliever, s2) \<Rightarrow>
                (case Family_save family (family\<lparr>headId := Some (bel_id headBeliever)\<rparr>) s2 of
                   Inl err \<Rightarrow> (Inl err, s)
                 | Inr s3 \<Rightarrow> (ok 201 ''Family created.'', s3))))"

definition createFamily :: "env \<Rightarrow> oid \<Rightarrow> oid \<Rightarrow> family_body \<Rightarrow> db \<Rightarrow> result" where
  "createFamily e newFamId newHeadId body s =
     (if \<not> truthy (trimOpt (b_address body)) then fail ''Address is required.'' 400 s
      else if \<not> truthy (trimOpt (b_village body)) then fail ''Village is required.'' 400 s
      else
        (case readName (createFamily_bindings body) ''district'' of
           Inl err \<Rightarrow> (Inl err, s)
         | Inr distr \<Rightarrow>
             if \<not> truthy (trimOpt distr) then fail ''District is required.'' 400 s
             else if the distr \<notin> set TN_DISTRICTS then fail ''Invalid district selected.'' 400 s
             else
               (case createFamily_headChecks body of
                  Some m \<Rightarrow> fail m 400 s
                | None \<Rightarrow> createFamily_transaction e newFamId newHeadId body (the distr) s)))"

subsection \<open>deleteFamily and restoreFamily\<close>

definition deleteFamily :: "env \<Rightarrow> oid \<Rightarrow> db \<Rightarrow> result" where
  "deleteFamily e i s =
     (case findOne (\<lambda>f. fam_id f = i \<and> \<not> fam_isDeleted f) (families s) of
        None \<Rightarrow> fail ''Family not found.'' 404 s
      | Some family \<Rightarrow>
          (case Family_save family
                  (family\<lparr>fam_isDeleted := True, fam_deletedAt := Some (now e)\<rparr>) s of
             Inl err \<Rightarrow> (Inl err, s)
           | Inr s1 \<Rightarrow>
               (ok 200 ''Family moved to trash.'',
                s1\<lparr>believers :=
                     updateMany (\<lambda>b. familyId b = fam_id family \<and> \<not> isDeleted b)
                       (\<lambda>b. b\<lparr>isDeleted := True, deletedAt := Some (now e)\<rparr>)
                       (believers s1)\<rparr>)))"

definition restoreFamily :: "oid \<Rightarrow> db \<Rightarrow> result" where
  "restoreFamily i s =
     (case findOne (\<lambda>f. fam_id f = i \<and> fam_isDeleted f) (families s) of
        None \<Rightarrow> fail ''Trashed family not found.'' 404 s
      | Some family \<Rightarrow>
          (let cnt = countDocuments (\<lambda>f. \<not> fam_isDeleted f) (families s);
               newFamilyCode = famCode cnt
           in case Family_save family
                     (family\<lparr>fam_isDeleted := False, fam_deletedAt := None,
                             familyCode := Some newFamilyCode\<rparr>) s of
                Inl err \<Rightarrow> (Inl err, s)
              | Inr s1 \<Rightarrow>
                  (ok 200 (''Family restored with new code: '' @ newFamilyCode),
                   s1\<lparr>believers :=
                        updateMany (\<lambda>b. familyId b = fam_id family \<and> isDeleted b)
                          (\<lambda>b. b\<lparr>isDeleted := False, deletedAt := None\<rparr>)
                          (believers s1)\<rparr>)))"

text \<open>Soft-deleting a family and restoring it at once.\<close>

definition deleteThenRestore :: "env \<Rightarrow> oid \<Rightarrow> db \<Rightarrow> db" where
  "deleteThenRestore e i s = snd (restoreFamily i (snd (deleteFamily e i s)))"

subsection \<open>addMember\<close>

text \<open>The required-field checks of \<open>addMember\<close>, in the order of the source.\<close>

definition addMember_required :: "member_body \<Rightarrow> string option" where
  "addMember_required data =
     (if \<not> truthy (trimOpt (d_fullName data)) then Some ''Full name is required.''
      else if \<not> truthyD (d_dob data) then Some ''Date of birth is required.''
      else if \<not> truthy (d_gender data) then Some ''Gender is required.''
      else if \<not> truthy (d_relationshipToHead data) \<or> d_relationshipToHead data = Some ''Self''
        then Some ''A valid relationship to head is required.''
      else if d_relationshipToHead data = Some ''Other'' \<and> \<not> truthy (trimOpt (d_relationCustom data))
        then Some (''Custom relation is required when '' @ [CHR 0x22] @ ''Other'' @ [CHR 0x22]
                   @ '' is selected.'')
      else if \<not> truthy (d_memberType data) then Some ''Member type is required.''
      else if \<not> truthy (d_occupationCategory data) then Some ''Occupation is required.''
      else validateBelieverFields data)"

text \<open>What the block \<open>if (age < 18)\<close> makes of the request of a minor.\<close>

definition forcedSingle :: "member_body \<Rightarrow> member_body" where
  "forcedSingle body = body\<lparr>d_maritalStatus := Some ''Single'', d_spouseId := None,
                              d_spouseName := None, d_weddingDate := None\<rparr>"

definition isSpouseRelation :: "member_body \<Rightarrow> bool" where
  "isSpouseRelation data = (the (d_relationshipToHead data) \<in> set [''Wife'', ''Husband''])"

text \<open>The block \<open>if (age < 18)\<close>: a minor is not added as a spouse, and is forced Single.\<close>

definition addMember_minor :: "int \<Rightarrow> member_body \<Rightarrow> error + member_body" where
  "addMember_minor age data =
     (if age < 18 then
        (if isSpouseRelation data
         then Inl (AppError ''A person under 18 cannot be added as Wife or Husband.'' 400)
         else Inr (forcedSingle data))
      else Inr data)"

text \<open>
  The Wife/Husband logic: the result is the request as changed and \<open>autoLinkedSpouse\<close>.
\<close>

definition addMember_spouseLogic ::
  "int \<Rightarrow> family \<Rightarrow> member_body \<Rightarrow> db \<Rightarrow> error + (member_body \<times> bool)" where
  "addMember_spouseLogic age fam data s =
     (if isSpouseRelation data \<and> age \<ge> 18 then
        (case (case headId fam of None \<Rightarrow> None | Some h \<Rightarrow> Believer_findById h s) of
           None \<Rightarrow> Inl (AppError ''Family head not found.'' 404)
         | Some head \<Rightarrow>
             (case spouseId head of
                Some sp \<Rightarrow>
                  (let existingSpouse = Believer_findById sp s;
                       name = (case existingSpouse of
                                 None \<Rightarrow> ''unknown''
                               | Some x \<Rightarrow> if fullName x \<noteq> [] then fullName x else ''unknown'')
                   in Inl (AppError
                        (''The family head already has a linked spouse ('' @ [CHR 0x22] @ name
                          @ [CHR 0x22] @ ''). Cannot add another.'') 409))
              | None \<Rightarrow> Inr (data\<lparr>d_maritalStatus := Some ''Married''\<rparr>, True)))
      else if \<not> isSpouseRelation data \<and> age \<ge> 18 then
        (if \<not> truthy (d_maritalStatus data) then Inl (AppError ''Marital status is required.'' 400)
         else if d_maritalStatus data = Some ''Married'' \<and> \<not> truthy (d_spouseId data)
                 \<and> \<not> truthy (d_spouseName data)
           then Inl (AppError ''Spouse ID or spouse name is required for Married status.'' 400)
         else Inr (data, False))
      else Inr (data, False))"

definition memberData :: "oid \<Rightarrow> oid \<Rightarrow> int \<Rightarrow> oid option \<Rightarrow> member_body \<Rightarrow> believer" where
  "memberData newId famId age sid data =
     \<lparr>bel_id = newId,
      familyId = famId,
      isHead = False,
      fullName = trim (the (d_fullName data)),
      dob = instantOf (the (d_dob data)),
      gender = the (d_gender data),
      phone = orElse (d_phone data) None,
      email = orElse (trimOpt (d_email data)) None,
      memberType = the (d_memberType data),
      membershipStatus = orElse (d_membershipStatus data) (Some ''Active''),
      joinDate = castDate (d_joinDate data),
      baptized = d_baptized data,
      baptizedDate = (if d_baptized data = Some ''Yes'' then castDate (d_baptizedDate data) else None),
      relationshipToHead = the (d_relationshipToHead data),
      relationCustom =
        (if d_relationshipToHead data = Some ''Other'' then trimOpt (d_relationCustom data) else None),
      maritalStatus = the (orElse (d_maritalStatus data) (Some ''Single'')),
      spouseId = sid,
      spouseName = orElse (d_spouseName data) None,
      weddingDate =
        (if d_maritalStatus data = Some ''Married'' \<and> truthyD (d_weddingDate data)
         then castDate (d_weddingDate data) else None),
      occupationCategory = resolveOccupation age (d_occupationCategory data),
      educationLevel =
        (if d_occupationCategory data = Some ''Student'' \<and> truthy (d_educationLevel data)
         then d_educationLevel data else None),
      isDeleted = False,
      deletedAt = None\<rparr>"

text \<open>
  The two-sided link of \<open>addMember\<close> after the member is created. An update whose value
  is \<open>undefined\<close> (\<open>head?.fullName\<close> of a head that is not found) sets nothing.
\<close>

definition addMember_link :: "family \<Rightarrow> believer \<Rightarrow> bool \<Rightarrow> oid option \<Rightarrow> db \<Rightarrow> db" where
  "addMember_link fam member autoLinkedSpouse sid s =
     (if autoLinkedSpouse then
        (case headId fam of
           None \<Rightarrow> s
         | Some h \<Rightarrow>
             (let head = Believer_findById h s;
                  s1 = Believer_findByIdAndUpdate (bel_id member)
                         (\<lambda>t. t\<lparr>spouseId := Some h,
                                spouseName := (case head of None \<Rightarrow> spouseName t
                                               | Some x \<Rightarrow> Some (trim (fullName x)))\<rparr>) s
              in Believer_findByIdAndUpdate h
                   (\<lambda>t. t\<lparr>spouseId := Some (bel_id member),
                          spouseName := Some (trim (fullName member)),
                          maritalStatus := ''Married''\<rparr>) s1))
      else (case sid of
              None \<Rightarrow> s
            | Some sp \<Rightarrow>
                Believer_findByIdAndUpdate sp (\<lambda>t. t\<lparr>spouseId := Some (bel_id member)\<rparr>) s))"

definition addMember :: "env \<Rightarrow> oid \<Rightarrow> oid \<Rightarrow> member_body \<Rightarrow> db \<Rightarrow> result" where
  "addMember e newId i body s =
     (case findOne (\<lambda>f. fam_id f = i \<and> \<not> fam_isDeleted f) (families s) of
        None \<Rightarrow> fail ''Family not found.'' 404 s
      | Some fam \<Rightarrow>
          (case addMember_required body of
             Some m \<Rightarrow> fail m 400 s
           | None \<Rightarrow>
               (let age = calcAgeIST e (the (d_dob body)) in
                case addMember_minor age body of
                  Inl err \<Rightarrow> (Inl err, s)
                | Inr data1 \<Rightarrow>
                    (case addMember_spouseLogic age fam data1 s of
                       Inl err \<Rightarrow> (Inl err, s)
                     | Inr (data, autoLinkedSpouse) \<Rightarrow>
                         (let sid = (if \<not> autoLinkedSpouse \<and> truthy (d_spouseId data)
                                     then d_spouseId data else None)
                          in case Believer_create e (memberData newId (fam_id fam) age sid data) s of
                               Inl err \<Rightarrow> (Inl err, s)
                             | Inr (member, s1) \<Rightarrow>
                                 (ok 201 ''Member added successfully.'',
                                  addMember_link fam member autoLinkedSpouse sid s1))))))"

subsection \<open>assignNewHead\<close>

text \<open>
  Mongoose tracks changes: assigning to a path of a loaded document the value it already
  has leaves the path unmodified, and \<open>save()\<close> writes the modified paths only. So the
  stored value stays when the new value is the loaded one.
\<close>

definition assign :: "'v \<Rightarrow> 'v \<Rightarrow> 'v \<Rightarrow> 'v" where
  "assign loaded new stored = (if new = loaded then stored else new)"

definition assignNewHead :: "oid \<Rightarrow> string option \<Rightarrow> db \<Rightarrow> result" where
  "assignNewHead i newHeadId s =
     (if \<not> truthy newHeadId then fail ''New head believer ID is required.'' 400 s
      else
        (case findOne (\<lambda>f. fam_id f = i \<and> \<not> fam_isDeleted f) (families s) of
           None \<Rightarrow> fail ''Family not found.'' 404 s
         | Some fam \<Rightarrow>
             (case findOne (\<lambda>b. bel_id b = the newHeadId \<and> familyId b = fam_id fam \<and> \<not> isDeleted b)
                     (believers s) of
                None \<Rightarrow> fail ''Believer not found in this family.'' 404 s
              | Some newHead \<Rightarrow>
                  (let s1 = (case headId fam of
                               None \<Rightarrow> s
                             | Some h \<Rightarrow> Believer_findByIdAndUpdate h (\<lambda>b. b\<lparr>isHead := False\<rparr>) s);
                       s2 = Believer_save (bel_id newHead)
                              (\<lambda>b. b\<lparr>isHead := assign (isHead newHead) True (isHead b),
                                     relationshipToHead :=
                                       assign (relationshipToHead newHead) ''Self''
                                         (relationshipToHead b)\<rparr>) s1
                   in case Family_save fam (fam\<lparr>headId := Some (bel_id newHead)\<rparr>) s2 of
                        Inl err \<Rightarrow> (Inl err, s2)
                      | Inr s3 \<Rightarrow>
                          (ok 200 (fullName newHead @ '' is now the family head.''), s3)))))"

section \<open>Sequences of requests and the head invariant\<close>

text \<open>
  The lifecycle operations as requests, run one after the other on the store. A request
  is admissible when the ObjectId generated for a new member is not in use, and when
  \<open>assignNewHead\<close> names a believer other than the family's current head.
\<close>

datatype request =
    CreateFamily env oid oid family_body
  | AddMember env oid oid member_body
  | UpdateBeliever env oid update_body
  | AssignNewHead oid "string option"
  | DeleteBeliever env oid
  | RestoreBeliever oid
  | DeleteFamily env oid
  | RestoreFamily oid

fun handle :: "request \<Rightarrow> db \<Rightarrow> db" where
  "handle (CreateFamily e newFamId newHeadId body) s = snd (createFamily e newFamId newHeadId body s)"
| "handle (AddMember e newId i body) s = snd (addMember e newId i body s)"
| "handle (UpdateBeliever e i body) s = snd (updateBeliever e i body s)"
| "handle (AssignNewHead i newHeadId) s = snd (assignNewHead i newHeadId s)"
| "handle (DeleteBeliever e i) s = snd (deleteBeliever e i s)"
| "handle (RestoreBeliever i) s = snd (restoreBeliever i s)"
| "handle (DeleteFamily e i) s = snd (deleteFamily e i s)"
| "handle (RestoreFamily i) s = snd (restoreFamily i s)"

fun admissible :: "request \<Rightarrow> db \<Rightarrow> bool" where
  "admissible (AddMember e newId i body) s = (newId \<notin> set (map bel_id (believers s)))"
| "admissible (AssignNewHead i newHeadId) s =
     list_all (\<lambda>f. fam_id f = i \<longrightarrow> headId f \<noteq> newHeadId) (families s)"
| "admissible r s = True"

fun run :: "request list \<Rightarrow> db \<Rightarrow> db" where
  "run [] s = s"
| "run (r # rs) s = run rs (handle r s)"

fun admissibleTrace :: "request list \<Rightarrow> db \<Rightarrow> bool" where
  "admissibleTrace [] s = True"
| "admissibleTrace (r # rs) s = (admissible r s \<and> admissibleTrace rs (handle r s))"

text \<open>
  The invariant of the store: ids are unique; the \<open>headId\<close> of every family names a
  believer of that family who is a head with the relationship Self, and who is not
  deleted when the family is not; every believer who is a head is the \<open>headId\<close> of
  its family.
\<close>

definition headInv :: "db \<Rightarrow> bool" where
  "headInv s \<longleftrightarrow>
     distinct (map bel_id (believers s)) \<and> distinct (map fam_id (families s)) \<and>
     (\<forall>f\<in>set (families s). \<exists>b\<in>set (believers s).
         headId f = Some (bel_id b) \<and> familyId b = fam_id f \<and> isHead b \<and>
         relationshipToHead b = ''Self'' \<and> (\<not> fam_isDeleted f \<longrightarrow> \<not> isDeleted b)) \<and>
     (\<forall>b\<in>set (believers s). isHead b \<longrightarrow>
         (\<exists>f\<in>set (families s). fam_id f = familyId b \<and> headId f = Some (bel_id b)))"

text \<open>
  Every non-deleted family has exactly one non-deleted believer who is a head and belongs
  to it, and that believer's relationship is Self.
\<close>

definition headsOf :: "family \<Rightarrow> db \<Rightarrow> believer list" where
  "headsOf f s = filter (\<lambda>b. \<not> isDeleted b \<and> isHead b \<and> familyId b = fam_id f) (believers s)"

definition headExactlyOne :: "db \<Rightarrow> bool" where
  "headExactlyOne s \<longleftrightarrow>
     (\<forall>f\<in>set (families s). \<not> fam_isDeleted f \<longrightarrow>
        length (headsOf f s) = 1 \<and>
        (\<forall>b\<in>set (headsOf f s). relationshipToHead b = ''Self''))"

text \<open>No believer who is not a head has the relationship Self.\<close>

definition nonHeadNeverSelf :: "db \<Rightarrow> bool" where
  "nonHeadNeverSelf s = list_all (\<lambda>b. \<not> isHead b \<longrightarrow> relationshipToHead b \<noteq> ''Self'') (believers s)"

section \<open>An example store\<close>

text \<open>
  One family, FAM-0001: Mark, its head, married to Mary, and their son Sam, born on
  2011-03-01. The example clock is at 2026-11-02: Sam is 15, and every other date of
  birth is 30 years back. The names of the example are ASCII, and so are lowered letter
  by letter.
\<close>

definition lowerChar :: "char \<Rightarrow> char" where
  "lowerChar c =
     (case find (\<lambda>p. fst p = c)
             (zip ''ABCDEFGHIJKLMNOPQRSTUVWXYZ'' ''abcdefghijklmnopqrstuvwxyz'') of
        None \<Rightarrow> c | Some p \<Rightarrow> snd p)"

definition ex_env :: env where
  "ex_env = \<lparr>now = 1793577600000, yearsSince = (\<lambda>d. if d = 1298937600000 then 15 else 30),
              toLowerCase = map lowerChar\<rparr>"

definition ex_family :: family where
  "ex_family = \<lparr>fam_id = ''f1'', familyCode = Some ''FAM-0001'', address = ''12 Church Street'',
                 village = ''Melur'', district = ''Madurai'', familyStatus = ''Active'',
                 headId = Some ''h1'', fam_isDeleted = False, fam_deletedAt = None\<rparr>"

definition ex_head :: believer where
  "ex_head = \<lparr>bel_id = ''h1'', familyId = ''f1'', isHead = True, fullName = ''Mark'',
               dob = 830908800000, gender = ''Male'', phone = None, email = None,
               memberType = ''Member'', membershipStatus = Some ''Active'', joinDate = None,
               baptized = Some ''Yes'', baptizedDate = None, relationshipToHead = ''Self'',
               relationCustom = None, maritalStatus = ''Married'', spouseId = Some ''w1'',
               spouseName = Some ''Mary'', weddingDate = None, occupationCategory = ''Employed'',
               educationLevel = None, isDeleted = False, deletedAt = None\<rparr>"

definition ex_wife :: believer where
  "ex_wife = ex_head\<lparr>bel_id := ''w1'', isHead := False, fullName := ''Mary'',
                      gender := ''Female'', relationshipToHead := ''Wife'',
                      spouseId := Some ''h1'', spouseName := Some ''Mark'',
                      occupationCategory := ''House-Wife''\<rparr>"

definition ex_son :: believer where
  "ex_son = ex_head\<lparr>bel_id := ''c1'', isHead := False, fullName := ''Sam'',
                     dob := 1298937600000, memberType := ''Youth'',
                     relationshipToHead := ''Son'', maritalStatus := ''Single'',
                     spouseId := None, spouseName := None, occupationCategory := ''Student'',
                     educationLevel := Some ''School''\<rparr>"

definition ex_db :: db where
  "ex_db = \<lparr>families = [ex_family], believers = [ex_head, ex_wife, ex_son]\<rparr>"

text \<open>The same family in the trash, with all its members.\<close>

definition ex_trashed :: db where
  "ex_trashed =
     \<lparr>families = [ex_family\<lparr>familyCode := None, fam_isDeleted := True,
                             fam_deletedAt := Some 1790812800000\<rparr>],
      believers = map (\<lambda>b. b\<lparr>isDeleted := True, deletedAt := Some 1790812800000\<rparr>)
                    [ex_head, ex_wife, ex_son]\<rparr>"

text \<open>An update request that sends only \<open>spouseId: ""\<close>, and one that sends a new \<open>dob\<close>.\<close>

definition ex_clear :: update_body where
  "ex_clear =
     \<lparr>u_fullName = Undefined, u_dob = Undefined, u_gender = Undefined, u_phone = Undefined,
      u_email = Undefined, u_memberType = Undefined, u_membershipStatus = Undefined,
      u_joinDate = Undefined, u_baptized = Undefined, u_baptizedDate = Undefined,
      u_maritalStatus = Undefined, u_weddingDate = Undefined, u_spouseId = Value [],
      u_spouseName = Undefined, u_occupationCategory = Undefined, u_educationLevel = Undefined,
      u_familyId = Undefined, u_isHead = Undefined, u_relationshipToHead = Undefined\<rparr>"

definition ex_minor :: update_body where
  "ex_minor = ex_clear\<lparr>u_spouseId := Undefined, u_dob := Value (Date 1298937600000)\<rparr>"

text \<open>
  A member request (Anna, a daughter, born in 2011), and a family request whose district
  is not one of the 38 and whose head is an adult with every required field.
\<close>

definition ex_member :: member_body where
  "ex_member =
     \<lparr>d_fullName = Some ''Anna'', d_dob = Some (Date 1298937600000), d_gender = Some ''Female'',
      d_relationshipToHead = Some ''Daughter'', d_relationCustom = None,
      d_memberType = Some ''Youth'', d_occupationCategory = Some ''Student'', d_phone = None,
      d_email = None, d_membershipStatus = None, d_joinDate = None, d_baptized = Some ''No'',
      d_baptizedDate = None, d_maritalStatus = Some ''Married'', d_spouseId = Some ''h1'',
      d_spouseName = Some ''Mark'', d_weddingDate = Some (Date 1735689600000),
      d_educationLevel = Some ''School''\<rparr>"

definition ex_family_body :: family_body where
  "ex_family_body =
     \<lparr>b_address = Some ''4 Mill Road'', b_village = Some ''Melur'',
      b_district = Some ''Atlantis'', b_familyStatus = None,
      b_head = Some (ex_member\<lparr>d_fullName := Some ''Paul'', d_dob := Some (Date 631152000000),
                                d_gender := Some ''Male'', d_memberType := Some ''Member'',
                                d_occupationCategory := Some ''Employed'',
                                d_maritalStatus := Some ''Single'', d_spouseId := None,
                                d_spouseName := None, d_weddingDate := None\<rparr>)\<rparr>"

text \<open>
  A store with the example family in the trash and a second family, FAM-0002, whose only
  member is its head Paul.
\<close>

definition ex_db2 :: db where
  "ex_db2 =
     \<lparr>families = families ex_trashed @
                   [ex_family\<lparr>fam_id := ''f2'', familyCode := Some ''FAM-0002'',
                              headId := Some ''h2''\<rparr>],
      believers = believers ex_trashed @
                    [ex_head\<lparr>bel_id := ''h2'', familyId := ''f2'', fullName := ''Paul'',
                             maritalStatus := ''Single'', spouseId := None,
                             spouseName := None\<rparr>]\<rparr>"

text \<open>A request to add Ruth, 30 years old on the example clock, as a wife.\<close>

definition ex_ruth :: member_body where
  "ex_ruth = ex_member\<lparr>d_fullName := Some ''Ruth'', d_dob := Some (Date 836179200000),
                         d_relationshipToHead := Some ''Wife'', d_memberType := Some ''Member'',
                         d_occupationCategory := Some ''House-Wife'', d_maritalStatus := None,
                         d_spouseId := None, d_spouseName := None, d_weddingDate := None,
                         d_educationLevel := None\<rparr>"

lemmas ex_defs = lowerChar_def ex_ruth_def ex_db2_def ex_env_def ex_family_def ex_head_def ex_wife_def ex_son_def ex_db_def
  ex_trashed_def ex_clear_def ex_minor_def ex_member_def ex_family_body_def

text \<open>The definitions of \<open>addMember\<close> and \<open>updateBeliever\<close>, for evaluating them.\<close>

lemmas trim_defs = trim_def dropLeading.simps whiteSpace_def startsWith_def

lemmas addMember_defs = addMember_required_def validateBelieverFields_def truthy_def truthyD_def
  trimOpt_def calcAgeIST_def isSpouseRelation_def believerSchema_validate_def
  believerSchema_cast_def memberData_def inEnum_def optEnum_def relationEnum_def
  occupationEnum_def phoneValidator_def orElse_def castDate_def resolveOccupation_def
  Believer_findById_def findOne_def


lemmas updateBeliever_defs = updateBeliever_def attemptedLocked_def sanitizeUpdateData_def
  truthyF_def ageRule_def Believer_findById_def findOne_def calcAge_def truthy_def under18_def
  forceSingle_def updateValidators_def requiredField_def requiredEnum_def optionalEnum_def
  phoneValidator_def toOption_def applyUpdate_def setStr_def setOpt_def setDate_def mapField_def
  syncSpouse_def ok_def httpStatus_def Believer_findByIdAndUpdate_def Let_def truthyD_def
  castDate_def requiredDate_def

section \<open>Facts about the collection operations\<close>

lemma find_SomeD: "find P xs = Some x \<Longrightarrow> P x \<and> x \<in> set xs"
  by (induction xs) (auto split: if_splits)

lemma find_distinct_key:
  "distinct (map key xs) \<Longrightarrow> x \<in> set xs \<Longrightarrow> find (\<lambda>y. key y = key x) xs = Some x"
  by (induction xs) (auto simp: rev_image_eqI)

lemma find_distinct_key_pred:
  "distinct (map key xs) \<Longrightarrow> x \<in> set xs \<Longrightarrow> Q x \<Longrightarrow>
   find (\<lambda>y. key y = key x \<and> Q y) xs = Some x"
  by (induction xs) (auto simp: rev_image_eqI)

lemma find_updateOne_same:
  "(\<And>x. key (f x) = key x) \<Longrightarrow>
   find (\<lambda>b. key b = i) (updateOne (\<lambda>b. key b = i) f xs)
     = map_option f (find (\<lambda>b. key b = i) xs)"
  by (induction xs) auto

lemma find_updateOne_other:
  "k \<noteq> i \<Longrightarrow> (\<And>x. key (f x) = key x) \<Longrightarrow>
   find (\<lambda>b. key b = k) (updateOne (\<lambda>b. key b = i) f xs) = find (\<lambda>b. key b = k) xs"
  by (induction xs) auto

lemma find_deleteOne_key:
  "distinct (map key xs) \<Longrightarrow>
   find (\<lambda>b. key b = i) (deleteOne (\<lambda>b. key b = i) xs) = None"
  by (induction xs) (auto simp: find_None_iff image_iff)

lemma findById_update_same:
  "(\<And>x. bel_id (f x) = bel_id x) \<Longrightarrow>
   Believer_findById i (Believer_findByIdAndUpdate i f s) = map_option f (Believer_findById i s)"
  unfolding Believer_findById_def Believer_findByIdAndUpdate_def findOne_def
  using find_updateOne_same[of bel_id f i "believers s"] by simp

lemma findById_update_other:
  "k \<noteq> i \<Longrightarrow> (\<And>x. bel_id (f x) = bel_id x) \<Longrightarrow>
   Believer_findById k (Believer_findByIdAndUpdate i f s) = Believer_findById k s"
  unfolding Believer_findById_def Believer_findByIdAndUpdate_def findOne_def
  using find_updateOne_other[of k i bel_id f "believers s"] by simp

lemma findById_save_same:
  "(\<And>x. bel_id (f x) = bel_id x) \<Longrightarrow>
   Believer_findById i (Believer_save i f s) = map_option f (Believer_findById i s)"
  unfolding Believer_findById_def Believer_save_def findOne_def
  using find_updateOne_same[of bel_id f i "believers s"] by simp

lemma findById_save_other:
  "k \<noteq> i \<Longrightarrow> (\<And>x. bel_id (f x) = bel_id x) \<Longrightarrow>
   Believer_findById k (Believer_save i f s) = Believer_findById k s"
  unfolding Believer_findById_def Believer_save_def findOne_def
  using find_updateOne_other[of k i bel_id f "believers s"] by simp

lemma count_updateOne:
  "distinct (map key xs) \<Longrightarrow> x \<in> set xs \<Longrightarrow> P x \<Longrightarrow> \<not> P y \<Longrightarrow>
   length (filter P (updateOne (\<lambda>f. key f = key x) (\<lambda>f. y) xs)) = length (filter P xs) - 1"
proof (induction xs)
  case Nil
  then show ?case by simp
next
  case (Cons a xs)
  show ?case
  proof (cases "key a = key x")
    case True
    with Cons.prems have "a = x" by (auto simp: image_iff)
    with Cons.prems True show ?thesis by simp
  next
    case False
    with Cons.prems have x: "x \<in> set xs" by auto
    then have "filter P xs \<noteq> []" using Cons.prems(3) by (auto simp: filter_empty_conv)
    then have pos: "0 < length (filter P xs)" by simp
    from Cons.IH[OF _ x Cons.prems(3) Cons.prems(4)] Cons.prems(1)
    have "length (filter P (updateOne (\<lambda>f. key f = key x) (\<lambda>f. y) xs)) = length (filter P xs) - 1"
      by simp
    with False pos show ?thesis by simp
  qed
qed

lemma set_updateOne: "z \<in> set (updateOne P f xs) \<Longrightarrow> z \<in> set xs \<or> (\<exists>x\<in>set xs. P x \<and> z = f x)"
  by (induction xs) (auto split: if_splits)

lemma find_pred_updateOne:
  "find (\<lambda>y. key y = i \<and> Q y) xs = Some x \<Longrightarrow> distinct (map key xs) \<Longrightarrow> key (f x) = i \<Longrightarrow>
   find (\<lambda>y. key y = i) (updateOne (\<lambda>y. key y = i \<and> Q y) f xs) = Some (f x)"
  by (induction xs) (auto split: if_splits simp: image_iff dest!: find_SomeD)

lemma dropLeading_stuck: "find (startsWith s) ws = None \<Longrightarrow> dropLeading ws s = s"
  by (simp add: dropLeading.simps)

lemma dropLeading_none: "find (startsWith (dropLeading ws s)) ws = None"
proof (induction ws s rule: dropLeading.induct)
  case (1 ws s)
  show ?case
  proof (cases "find (startsWith s) ws")
    case None
    then show ?thesis by (simp add: dropLeading_stuck)
  next
    case (Some w)
    then have "dropLeading ws s = dropLeading ws (drop (length w) s)"
      by (simp add: dropLeading.simps)
    with 1[OF Some] show ?thesis by simp
  qed
qed

lemma dropLeading_drop: "\<exists>k. dropLeading ws s = drop k s"
proof (induction ws s rule: dropLeading.induct)
  case (1 ws s)
  show ?case
  proof (cases "find (startsWith s) ws")
    case None
    then have "dropLeading ws s = drop 0 s" by (simp add: dropLeading_stuck)
    then show ?thesis by blast
  next
    case (Some w)
    then have e: "dropLeading ws s = dropLeading ws (drop (length w) s)"
      by (simp add: dropLeading.simps)
    from 1[OF Some] obtain k where "dropLeading ws (drop (length w) s) = drop k (drop (length w) s)"
      by blast
    with e have "dropLeading ws s = drop (k + length w) s" by simp
    then show ?thesis by blast
  qed
qed

lemma startsWith_take: "startsWith (take m t) w \<Longrightarrow> startsWith t w"
proof -
  assume a: "startsWith (take m t) w"
  then have w: "w \<noteq> []" and e: "take (length w) (take m t) = w" by (simp_all add: startsWith_def)
  have "length w = min (min (length t) m) (length w)" using arg_cong[OF e, of length] by simp
  then have "length w \<le> m" by simp
  then have "take (length w) (take m t) = take (length w) t" by (simp add: min_def)
  with e w show ?thesis by (simp add: startsWith_def)
qed

lemma trim_idem: "trim (trim s) = trim s"
proof -
  let ?W = whiteSpace
  let ?t = "dropLeading ?W s"
  let ?u = "dropLeading (map rev ?W) (rev ?t)"
  obtain k where k: "?u = drop k (rev ?t)" using dropLeading_drop by blast
  have ru: "rev ?u = take (length ?t - k) ?t" unfolding k by (simp add: rev_drop)
  have "find (startsWith ?t) ?W = None" by (rule dropLeading_none)
  then have "find (startsWith (rev ?u)) ?W = None"
    unfolding ru by (auto simp: find_None_iff dest: startsWith_take)
  then have a: "dropLeading ?W (rev ?u) = rev ?u" by (rule dropLeading_stuck)
  have b: "dropLeading (map rev ?W) ?u = ?u"
    by (rule dropLeading_stuck) (rule dropLeading_none)
  show ?thesis unfolding trim_def a by (simp add: b)
qed

text \<open>The names of the example store have no white space at either end.\<close>

lemma trim_names [simp]:
  "trim ''Mark'' = ''Mark''" "trim ''Mary'' = ''Mary''" "trim ''Sam'' = ''Sam''"
  "trim ''Anna'' = ''Anna''" "trim ''Ruth'' = ''Ruth''" "trim ''Paul'' = ''Paul''"
  by (simp_all add: trim_defs)

lemma find_append_fresh:
  "find P xs = None \<Longrightarrow> find P (xs @ [b]) = (if P b then Some b else None)"
  by (induction xs) (auto split: if_splits)

lemma find_append_old:
  "find P xs = Some x \<Longrightarrow> find P (xs @ ys) = Some x"
  by (induction xs) (auto split: if_splits)

lemma findById_append_new:
  "i \<notin> set (map bel_id (believers s)) \<Longrightarrow> bel_id b = i \<Longrightarrow>
   Believer_findById i (s\<lparr>believers := believers s @ [b]\<rparr>) = Some b"
proof -
  assume a: "i \<notin> set (map bel_id (believers s))" and b: "bel_id b = i"
  have "find (\<lambda>x. bel_id x = i) (believers s) = None"
    using a by (auto simp: find_None_iff)
  from find_append_fresh[OF this, of b] b show ?thesis
    unfolding Believer_findById_def findOne_def by simp
qed

lemma findById_append_old:
  "Believer_findById k s = Some x \<Longrightarrow>
   Believer_findById k (s\<lparr>believers := believers s @ ys\<rparr>) = Some x"
  unfolding Believer_findById_def findOne_def by (simp add: find_append_old)

lemma updateOne_map:
  "distinct (map key xs) \<Longrightarrow> (\<And>x. P x \<Longrightarrow> key x = i) \<Longrightarrow>
   updateOne P f xs = map (\<lambda>x. if P x then f x else x) xs"
proof (induction xs)
  case Nil
  then show ?case by simp
next
  case (Cons a xs)
  show ?case
  proof (cases "P a")
    case True
    then have "key a = i" by (rule Cons.prems(2))
    then have "\<And>x. x \<in> set xs \<Longrightarrow> \<not> P x"
      using Cons.prems by (auto simp: image_iff)
    then have "map (\<lambda>x. if P x then f x else x) xs = xs"
      by (simp add: map_idI)
    with True show ?thesis by simp
  next
    case False
    with Cons show ?thesis by simp
  qed
qed

lemma filter_singleton_distinct:
  assumes d: "distinct (map key xs)" and x: "x \<in> set xs" and P: "P x"
    and u: "\<And>y. y \<in> set xs \<Longrightarrow> P y \<Longrightarrow> key y = key x"
  shows "filter P xs = [x]"
  using d x u
proof (induction xs)
  case Nil
  then show ?case by simp
next
  case (Cons a xs)
  show ?case
  proof (cases "a = x")
    case True
    have "\<And>y. y \<in> set xs \<Longrightarrow> \<not> P y"
    proof
      fix y assume y: "y \<in> set xs" and "P y"
      then have "key y = key x" using Cons.prems(3) by simp
      with y True Cons.prems(1) show False by (auto simp: image_iff)
    qed
    then have "filter P xs = []" by (simp add: filter_empty_conv)
    with True P show ?thesis by simp
  next
    case False
    with Cons.prems have x': "x \<in> set xs" by simp
    have "\<not> P a"
    proof
      assume "P a"
      then have "key a = key x" using Cons.prems(3) by simp
      with x' Cons.prems(1) show False by (auto simp: image_iff)
    qed
    moreover have "filter P xs = [x]"
      using Cons.IH[OF _ x'] Cons.prems by simp
    ultimately show ?thesis by simp
  qed
qed

lemma same_key_same_elem:
  "distinct (map key xs) \<Longrightarrow> x \<in> set xs \<Longrightarrow> y \<in> set xs \<Longrightarrow> key x = key y \<Longrightarrow> x = y"
  by (induction xs) (auto simp: image_iff)

lemma applyUpdate_keys [simp]:
  "bel_id (applyUpdate e u b) = bel_id b" "familyId (applyUpdate e u b) = familyId b"
  "isHead (applyUpdate e u b) = isHead b" "isDeleted (applyUpdate e u b) = isDeleted b"
  "relationshipToHead (applyUpdate e u b) = relationshipToHead b"
  by (simp_all add: applyUpdate_def)

section \<open>Member-type classification\<close>

text \<open>
  C9. For every integer age and every marital status, \<open>suggestMemberType\<close> returns
  Child if age < 13, Youth if 13 \<le> age \<le> 30 and the status is Single, and Member
  otherwise: it agrees with the classifier of the specification everywhere.
\<close>

theorem suggestMemberType_refines_spec:
  "suggestMemberType age ms = classifyMemberType_spec age ms"
  unfolding suggestMemberType_def classifyMemberType_spec_def by auto

section \<open>Deleting believers\<close>

text \<open>
  C7. Soft-deleting a non-deleted believer who is a head answers 409 with the code
  IS_HEAD and leaves the whole store as it was. Soft-deleting a non-deleted believer who
  is not a head answers 200, marks the believer deleted at the current instant, and, when
  the believer had a linked spouse in the store, clears that spouse's \<open>spouseId\<close> and
  sets the spouse's \<open>spouseName\<close> to the deleted believer's full name (stored names are
  trimmed, as the schema stores them).
\<close>

theorem deleteBeliever_head_guard:
  assumes d: "distinct (map bel_id (believers s))"
    and b: "b \<in> set (believers s)" and nd: "\<not> isDeleted b"
    and tr: "trim (fullName b) = fullName b"
  shows "(isHead b \<longrightarrow>
            deleteBeliever e (bel_id b) s =
              (Inr \<lparr>status = 409, code = Some ''IS_HEAD'',
                    message = ''This member is the family head. Assign a new head before deleting.'',
                    count = None\<rparr>, s))
       \<and> (\<not> isHead b \<longrightarrow>
            httpStatus (fst (deleteBeliever e (bel_id b) s)) = 200
          \<and> (\<exists>b'. Believer_findById (bel_id b) (snd (deleteBeliever e (bel_id b) s)) = Some b'
                  \<and> isDeleted b' \<and> deletedAt b' = Some (now e))
          \<and> (\<forall>sp x. spouseId b = Some sp \<and> Believer_findById sp s = Some x \<longrightarrow>
                (\<exists>x'. Believer_findById sp (snd (deleteBeliever e (bel_id b) s)) = Some x'
                   \<and> spouseId x' = None \<and> spouseName x' = Some (fullName b))))"
proof -
  have f: "findOne (\<lambda>x. bel_id x = bel_id b \<and> \<not> isDeleted x) (believers s) = Some b"
    unfolding findOne_def
    using find_distinct_key_pred[OF d b, of "\<lambda>x. \<not> isDeleted x"] nd by simp
  have fb: "Believer_findById (bel_id b) s = Some b"
    unfolding Believer_findById_def findOne_def using find_distinct_key[OF d b] .
  show ?thesis
  proof (intro conjI impI)
    assume "isHead b"
    then show "deleteBeliever e (bel_id b) s =
              (Inr \<lparr>status = 409, code = Some ''IS_HEAD'',
                    message = ''This member is the family head. Assign a new head before deleting.'',
                    count = None\<rparr>, s)"
      using f by (simp add: deleteBeliever_def)
  next
    assume "\<not> isHead b"
    then show "httpStatus (fst (deleteBeliever e (bel_id b) s)) = 200"
      using f by (simp add: deleteBeliever_def httpStatus_def ok_def Let_def)
  next
    assume nh: "\<not> isHead b"
    show "\<exists>b'. Believer_findById (bel_id b) (snd (deleteBeliever e (bel_id b) s)) = Some b'
                  \<and> isDeleted b' \<and> deletedAt b' = Some (now e)"
    proof (cases "spouseId b")
      case None
      then show ?thesis using f nh fb
        by (simp add: deleteBeliever_def Let_def findById_save_same)
    next
      case (Some sp)
      then show ?thesis using f nh fb
        by (cases "sp = bel_id b")
           (simp_all add: deleteBeliever_def Let_def findById_save_same findById_update_same
              findById_update_other)
    qed
  next
    assume nh: "\<not> isHead b"
    show "\<forall>sp x. spouseId b = Some sp \<and> Believer_findById sp s = Some x \<longrightarrow>
                (\<exists>x'. Believer_findById sp (snd (deleteBeliever e (bel_id b) s)) = Some x'
                   \<and> spouseId x' = None \<and> spouseName x' = Some (fullName b))"
    proof (intro allI impI, elim conjE)
      fix sp x assume sp: "spouseId b = Some sp" and x: "Believer_findById sp s = Some x"
      show "\<exists>x'. Believer_findById sp (snd (deleteBeliever e (bel_id b) s)) = Some x'
                   \<and> spouseId x' = None \<and> spouseName x' = Some (fullName b)"
        using f nh fb sp x tr
        by (cases "sp = bel_id b")
           (simp_all add: deleteBeliever_def Let_def findById_save_same findById_update_same
              findById_save_other)
    qed
  qed
qed

text \<open>
  On the example store: deleting Mark, the head, is refused and changes nothing; deleting
  Mary succeeds and leaves Mark without \<open>spouseId\<close>, with the spouse name Mary.
\<close>

theorem deleteBeliever_head_guard_witness:
  "deleteBeliever ex_env ''h1'' ex_db =
     (Inr \<lparr>status = 409, code = Some ''IS_HEAD'',
           message = ''This member is the family head. Assign a new head before deleting.'',
           count = None\<rparr>, ex_db)
   \<and> httpStatus (fst (deleteBeliever ex_env ''w1'' ex_db)) = 200
   \<and> (\<exists>x'. Believer_findById ''h1'' (snd (deleteBeliever ex_env ''w1'' ex_db)) = Some x'
          \<and> spouseId x' = None \<and> spouseName x' = Some ''Mary'')"
proof -
  have d: "distinct (map bel_id (believers ex_db))" by (simp add: ex_defs)
  have tr: "trim ''Mark'' = ''Mark''" "trim ''Mary'' = ''Mary''" by (simp_all add: trim_defs)
  have h: "ex_head \<in> set (believers ex_db)" "\<not> isDeleted ex_head" "isHead ex_head"
          "bel_id ex_head = ''h1''" "trim (fullName ex_head) = fullName ex_head"
    using tr by (simp_all add: ex_defs)
  have w: "ex_wife \<in> set (believers ex_db)" "\<not> isDeleted ex_wife" "\<not> isHead ex_wife"
          "bel_id ex_wife = ''w1''" "trim (fullName ex_wife) = fullName ex_wife"
          "spouseId ex_wife = Some ''h1''" "fullName ex_wife = ''Mary''"
    using tr by (simp_all add: ex_defs)
  have fh: "Believer_findById ''h1'' ex_db = Some ex_head"
    by (simp add: Believer_findById_def findOne_def ex_defs)
  from deleteBeliever_head_guard[OF d h(1) h(2) h(5), of ex_env] h(3) h(4)
  have 1: "deleteBeliever ex_env ''h1'' ex_db =
     (Inr \<lparr>status = 409, code = Some ''IS_HEAD'',
           message = ''This member is the family head. Assign a new head before deleting.'',
           count = None\<rparr>, ex_db)" by simp
  from deleteBeliever_head_guard[OF d w(1) w(2) w(5), of ex_env] w(3) w(4) w(6) w(7) fh
  have 2: "httpStatus (fst (deleteBeliever ex_env ''w1'' ex_db)) = 200
   \<and> (\<exists>x'. Believer_findById ''h1'' (snd (deleteBeliever ex_env ''w1'' ex_db)) = Some x'
          \<and> spouseId x' = None \<and> spouseName x' = Some ''Mary'')" by simp
  from 1 2 show ?thesis by simp
qed

section \<open>Clearing a spouse link by update\<close>

text \<open>
  Once the update that clears \<open>spouseId\<close> is written, the last step of
  \<open>updateBeliever\<close> reads the updated record and changes nothing, whoever the
  believer was linked to.
\<close>

lemma syncSpouse_after_clear:
  assumes d: "distinct (map bel_id (believers s))"
    and f: "findOne (\<lambda>b. bel_id b = i \<and> \<not> isDeleted b) (believers s) = Some found"
    and c: "u_spouseId u = Null"
  shows "syncSpouse i u believer
           (s\<lparr>believers := updateOne (\<lambda>b. bel_id b = i \<and> \<not> isDeleted b) (applyUpdate e u) (believers s)\<rparr>)
         = s\<lparr>believers := updateOne (\<lambda>b. bel_id b = i \<and> \<not> isDeleted b) (applyUpdate e u) (believers s)\<rparr>"
proof -
  have "find (\<lambda>b. bel_id b = i)
          (updateOne (\<lambda>b. bel_id b = i \<and> \<not> isDeleted b) (applyUpdate e u) (believers s))
        = Some (applyUpdate e u found)"
  proof (rule find_pred_updateOne[OF f[unfolded findOne_def] d])
    show "bel_id (applyUpdate e u found) = i"
      using f unfolding findOne_def by (auto dest: find_SomeD)
  qed
  moreover have "spouseId (applyUpdate e u found) = None"
    using c by (simp add: applyUpdate_def setOpt_def)
  ultimately show ?thesis
    using c by (simp add: syncSpouse_def truthyF_def Believer_findById_def findOne_def)
qed

text \<open>
  C2. The claim: when an update clears \<open>spouseId\<close>, the believer who was linked before
  the update has its own \<open>spouseId\<close> cleared too. The code reads the "old" record after
  the update has been written, finds no \<open>spouseId\<close> in it, and leaves the other side
  as it was. On the example store, clearing Mary's \<open>spouseId\<close> with an empty string,
  or making her 15 by a new \<open>dob\<close>, answers 200 and clears Mary's side (and forces
  Single for the minor), while Mark still has \<open>spouseId\<close> Mary.
\<close>

theorem updateBeliever_clear_keeps_backlink:
  "map bel_id (believers ex_db) = [''h1'', ''w1'', ''c1'']
   \<and> map spouseId (believers ex_db) = [Some ''w1'', Some ''h1'', None]
   \<and> httpStatus (fst (updateBeliever ex_env ''w1'' ex_clear ex_db)) = 200
   \<and> map spouseId (believers (snd (updateBeliever ex_env ''w1'' ex_clear ex_db)))
       = [Some ''w1'', None, None]
   \<and> httpStatus (fst (updateBeliever ex_env ''w1'' ex_minor ex_db)) = 200
   \<and> map spouseId (believers (snd (updateBeliever ex_env ''w1'' ex_minor ex_db)))
       = [Some ''w1'', None, None]
   \<and> map maritalStatus (believers (snd (updateBeliever ex_env ''w1'' ex_minor ex_db)))
       = [''Married'', ''Single'', ''Single'']"
  by (simp add: updateBeliever_defs ex_defs)

section \<open>Creating a family\<close>

text \<open>
  \<open>createFamily\<close> reads \<open>district\<close>, which nothing binds: once the address and
  the village are present, every request ends in a ReferenceError, and no request
  changes the store.
\<close>

lemma createFamily_district_unbound:
  "truthy (trimOpt (b_address body)) \<Longrightarrow> truthy (trimOpt (b_village body)) \<Longrightarrow>
   createFamily e newFamId newHeadId body s = (Inl (ReferenceError ''district is not defined''), s)"
  by (simp add: createFamily_def readName_def createFamily_bindings_def)

lemma createFamily_store: "snd (createFamily e newFamId newHeadId body s) = s"
  by (simp add: createFamily_def readName_def createFamily_bindings_def fail_def)

text \<open>
  C8. The claim: a request with a missing or invalid required field fails with a
  ValidationError (400) that names the field. On the example request, whose district
  Atlantis is not in the list, the code answers 500 with a ReferenceError instead; the
  store is unchanged.
\<close>

theorem createFamily_invalid_district_500:
  "createFamily ex_env ''f2'' ''h2'' ex_family_body ex_db
     = (Inl (ReferenceError ''district is not defined''), ex_db)
   \<and> httpStatus (fst (createFamily ex_env ''f2'' ''h2'' ex_family_body ex_db)) = 500
   \<and> the (b_district ex_family_body) \<notin> set TN_DISTRICTS"
  by (simp add: createFamily_def readName_def createFamily_bindings_def ex_defs truthy_def
      trimOpt_def trim_defs httpStatus_def TN_DISTRICTS_def)

section \<open>Adding a member\<close>

text \<open>
  The three theorems below are about a request that reaches the relationship policy of
  \<open>addMember\<close>: the family exists and is not deleted, and the required-field checks
  pass (\<open>addMember_required body = None\<close>). A full name that is only white space
  does not pass them: with the no-break space U+00A0 for a name, the answer is 400.
\<close>

lemma addMember_blank_name:
  "addMember ex_env ''n1'' ''f1'' (ex_ruth\<lparr>d_fullName := Some [CHR 0xC2, CHR 0xA0]\<rparr>) ex_db
     = (Inl (AppError ''Full name is required.'' 400), ex_db)"
proof -
  have "trim [CHR 0xC2, CHR 0xA0] = []" by (simp add: trim_defs)
  then have "addMember_required (ex_ruth\<lparr>d_fullName := Some [CHR 0xC2, CHR 0xA0]\<rparr>)
               = Some ''Full name is required.''"
    by (simp add: addMember_required_def truthy_def trimOpt_def)
  then show ?thesis by (simp add: addMember_def findOne_def fail_def ex_defs)
qed

text \<open>
  C3. When the head of the family has no \<open>spouseId\<close>, adding a member as Wife or
  Husband, 18 or older, whose document passes the schema's validators, answers 201, and
  afterwards the new member B and the head H are linked both ways: B's \<open>spouseId\<close>
  is the head's id, H's \<open>spouseId\<close> is B's id, H (and B) are Married, and each one's
  \<open>spouseName\<close> is the other's full name. The new id is fresh and the stored name of
  the head is trimmed, as the schema stores it.
\<close>

theorem addMember_spouse_link:
  assumes fam: "findOne (\<lambda>f. fam_id f = i \<and> \<not> fam_isDeleted f) (families s) = Some fam"
    and req: "addMember_required body = None"
    and rel: "d_relationshipToHead body = Some ''Wife'' \<or> d_relationshipToHead body = Some ''Husband''"
    and age: "18 \<le> calcAgeIST e (the (d_dob body))"
    and hd: "headId fam = Some h" "Believer_findById h s = Some head" "spouseId head = None"
    and tr: "trim (fullName head) = fullName head"
    and fresh: "newId \<notin> set (map bel_id (believers s))"
    and valid: "believerSchema_validate (believerSchema_cast e
                  (memberData newId (fam_id fam) (calcAgeIST e (the (d_dob body))) None
                     (body\<lparr>d_maritalStatus := Some ''Married''\<rparr>)))"
  shows "httpStatus (fst (addMember e newId i body s)) = 201
       \<and> (\<exists>B H. Believer_findById newId (snd (addMember e newId i body s)) = Some B
              \<and> Believer_findById h (snd (addMember e newId i body s)) = Some H
              \<and> spouseId B = Some h \<and> spouseId H = Some newId
              \<and> maritalStatus H = ''Married'' \<and> maritalStatus B = ''Married''
              \<and> spouseName B = Some (fullName H) \<and> spouseName H = Some (fullName B)
              \<and> fullName H = fullName head)"
proof -
  let ?age = "calcAgeIST e (the (d_dob body))"
  let ?data = "body\<lparr>d_maritalStatus := Some ''Married''\<rparr>"
  let ?doc = "believerSchema_cast e (memberData newId (fam_id fam) ?age None ?data)"
  let ?s1 = "s\<lparr>believers := believers s @ [?doc]\<rparr>"
  let ?f = "\<lambda>t. t\<lparr>spouseId := Some h, spouseName := Some (trim (fullName head))\<rparr>"
  let ?g = "\<lambda>t. t\<lparr>spouseId := Some (bel_id ?doc), spouseName := Some (trim (fullName ?doc)),
                    maritalStatus := ''Married''\<rparr>"
  let ?s3 = "Believer_findByIdAndUpdate h ?g (Believer_findByIdAndUpdate newId ?f ?s1)"
  have sr: "isSpouseRelation body" using rel by (auto simp: isSpouseRelation_def)
  have m: "addMember_minor ?age body = Inr body"
    using age by (simp add: addMember_minor_def)
  have sl: "addMember_spouseLogic ?age fam body s = Inr (?data, True)"
    using sr age hd by (simp add: addMember_spouseLogic_def)
  have id: "bel_id ?doc = newId" by (simp add: believerSchema_cast_def memberData_def)
  have h1: "Believer_findById h ?s1 = Some head"
    using findById_append_old[OF hd(2)] .
  have r: "addMember e newId i body s = (ok 201 ''Member added successfully.'', ?s3)"
    using fam req m sl valid h1 hd(1)
    by (simp add: addMember_def Let_def Believer_create_def addMember_link_def id)
  have hne: "h \<noteq> newId"
    using hd(2) fresh unfolding Believer_findById_def findOne_def
    by (auto dest!: find_SomeD)
  have n1: "Believer_findById newId ?s1 = Some ?doc"
    using findById_append_new[OF fresh id] .
  have B: "Believer_findById newId ?s3 = Some (?f ?doc)"
    using hne n1 by (simp add: findById_update_other findById_update_same)
  have H: "Believer_findById h ?s3 = Some (?g head)"
    using hne h1 by (simp add: findById_update_other findById_update_same)
  have fn: "trim (fullName ?doc) = fullName ?doc"
    by (simp add: believerSchema_cast_def memberData_def trim_idem)
  have ms: "maritalStatus ?doc = ''Married''"
    by (simp add: believerSchema_cast_def memberData_def orElse_def truthy_def)
  have "spouseId (?f ?doc) = Some h \<and> spouseId (?g head) = Some newId
        \<and> maritalStatus (?g head) = ''Married'' \<and> maritalStatus (?f ?doc) = ''Married''
        \<and> spouseName (?f ?doc) = Some (fullName (?g head))
        \<and> spouseName (?g head) = Some (fullName (?f ?doc))
        \<and> fullName (?g head) = fullName head"
    using id fn ms tr by simp
  with B H have "\<exists>B H. Believer_findById newId ?s3 = Some B
              \<and> Believer_findById h ?s3 = Some H
              \<and> spouseId B = Some h \<and> spouseId H = Some newId
              \<and> maritalStatus H = ''Married'' \<and> maritalStatus B = ''Married''
              \<and> spouseName B = Some (fullName H) \<and> spouseName H = Some (fullName B)
              \<and> fullName H = fullName head"
    by blast
  then show ?thesis unfolding r by (simp add: httpStatus_def ok_def)
qed

text \<open>On the second example store: Ruth is added as the wife of Paul, who had no spouse.\<close>

theorem addMember_spouse_link_witness:
  "httpStatus (fst (addMember ex_env ''n1'' ''f2'' ex_ruth ex_db2)) = 201
   \<and> (\<exists>B H. Believer_findById ''n1'' (snd (addMember ex_env ''n1'' ''f2'' ex_ruth ex_db2)) = Some B
          \<and> Believer_findById ''h2'' (snd (addMember ex_env ''n1'' ''f2'' ex_ruth ex_db2)) = Some H
          \<and> spouseId B = Some ''h2'' \<and> spouseId H = Some ''n1''
          \<and> maritalStatus H = ''Married'' \<and> maritalStatus B = ''Married''
          \<and> spouseName B = Some (fullName H) \<and> spouseName H = Some (fullName B)
          \<and> fullName H = ''Paul'')"
proof -
  let ?F = "ex_family\<lparr>fam_id := ''f2'', familyCode := Some ''FAM-0002'', headId := Some ''h2''\<rparr>"
  let ?P = "ex_head\<lparr>bel_id := ''h2'', familyId := ''f2'', fullName := ''Paul'',
                     maritalStatus := ''Single'', spouseId := None, spouseName := None\<rparr>"
  have fam: "findOne (\<lambda>f. fam_id f = ''f2'' \<and> \<not> fam_isDeleted f) (families ex_db2) = Some ?F"
    by (simp add: findOne_def ex_defs)
  have req: "addMember_required ex_ruth = None"
    by (simp add: ex_ruth_def ex_defs addMember_defs)
  have rel: "d_relationshipToHead ex_ruth = Some ''Wife'' \<or> d_relationshipToHead ex_ruth = Some ''Husband''"
    by (simp add: ex_ruth_def)
  have age: "18 \<le> calcAgeIST ex_env (the (d_dob ex_ruth))"
    by (simp add: ex_ruth_def ex_defs addMember_defs)
  have hd: "headId ?F = Some ''h2''" "Believer_findById ''h2'' ex_db2 = Some ?P"
           "spouseId ?P = None" "trim (fullName ?P) = fullName ?P"
    by (simp_all add: ex_defs addMember_defs)
  have fresh: "''n1'' \<notin> set (map bel_id (believers ex_db2))"
    by (simp add: ex_defs)
  have valid: "believerSchema_validate (believerSchema_cast ex_env
                  (memberData ''n1'' (fam_id ?F) (calcAgeIST ex_env (the (d_dob ex_ruth))) None
                     (ex_ruth\<lparr>d_maritalStatus := Some ''Married''\<rparr>)))"
    by (simp add: ex_ruth_def ex_defs addMember_defs)
  from addMember_spouse_link[OF fam req rel age hd fresh valid]
  show ?thesis by simp
qed

text \<open>
  C4. The claim: when the head has a \<open>spouseId\<close>, adding a Wife or Husband of 18 or
  more fails with 409 naming the existing spouse and persists nothing, so that at most one
  spouse is ever linked to a head. The first part holds: the request fails with 409 and a
  message that names the linked spouse (the name \<open>unknown\<close> when that spouse is not
  found or has no name), and the store is unchanged.
\<close>

theorem addMember_second_spouse_conflict:
  assumes fam: "findOne (\<lambda>f. fam_id f = i \<and> \<not> fam_isDeleted f) (families s) = Some fam"
    and req: "addMember_required body = None"
    and rel: "d_relationshipToHead body = Some ''Wife'' \<or> d_relationshipToHead body = Some ''Husband''"
    and age: "18 \<le> calcAgeIST e (the (d_dob body))"
    and hd: "headId fam = Some h" "Believer_findById h s = Some head" "spouseId head = Some sp"
  shows "addMember e newId i body s =
           (Inl (AppError (''The family head already has a linked spouse ('' @ [CHR 0x22]
                  @ (case Believer_findById sp s of
                       None \<Rightarrow> ''unknown''
                     | Some x \<Rightarrow> if fullName x \<noteq> [] then fullName x else ''unknown'')
                  @ [CHR 0x22] @ ''). Cannot add another.'') 409), s)"
proof -
  have sr: "isSpouseRelation body" using rel by (auto simp: isSpouseRelation_def)
  have m: "addMember_minor (calcAgeIST e (the (d_dob body))) body = Inr body"
    using age by (simp add: addMember_minor_def)
  show ?thesis
    using fam req sr age hd m
    by (simp add: addMember_def addMember_spouseLogic_def Let_def)
qed

text \<open>On the example store: Mark is married to Mary, so Ruth cannot be added as his wife.\<close>

theorem addMember_second_spouse_conflict_witness:
  "addMember ex_env ''n1'' ''f1'' ex_ruth ex_db =
     (Inl (AppError (''The family head already has a linked spouse ('' @ [CHR 0x22] @ ''Mary''
                      @ [CHR 0x22] @ ''). Cannot add another.'') 409), ex_db)"
proof -
  have fam: "findOne (\<lambda>f. fam_id f = ''f1'' \<and> \<not> fam_isDeleted f) (families ex_db) = Some ex_family"
    by (simp add: findOne_def ex_defs)
  have req: "addMember_required ex_ruth = None"
    by (simp add: ex_ruth_def ex_defs addMember_defs)
  have rel: "d_relationshipToHead ex_ruth = Some ''Wife'' \<or> d_relationshipToHead ex_ruth = Some ''Husband''"
    by (simp add: ex_ruth_def)
  have age: "18 \<le> calcAgeIST ex_env (the (d_dob ex_ruth))"
    by (simp add: ex_ruth_def ex_defs addMember_defs)
  have hd: "headId ex_family = Some ''h1''" "Believer_findById ''h1'' ex_db = Some ex_head"
           "spouseId ex_head = Some ''w1''"
    by (simp_all add: ex_defs addMember_defs)
  have sp: "Believer_findById ''w1'' ex_db = Some ex_wife" "fullName ex_wife = ''Mary''"
    by (simp_all add: ex_defs addMember_defs)
  from addMember_second_spouse_conflict[OF fam req rel age hd, of "''n1''"] sp
  show ?thesis by simp
qed

text \<open>
  C5. For a request whose computed age is under 18: as Wife or Husband it fails with 400
  and the store is unchanged; otherwise, the member is created exactly when the document
  passes the schema's validators (else the validation error leaves the store unchanged),
  and the created believer is Single, with no \<open>spouseId\<close>, no wedding date and no
  spouse name, whatever the request sent for them.
\<close>

theorem addMember_minor_guard:
  assumes fam: "findOne (\<lambda>f. fam_id f = i \<and> \<not> fam_isDeleted f) (families s) = Some fam"
    and req: "addMember_required body = None"
    and age: "calcAgeIST e (the (d_dob body)) < 18"
  shows "(isSpouseRelation body \<longrightarrow>
            addMember e newId i body s =
              (Inl (AppError ''A person under 18 cannot be added as Wife or Husband.'' 400), s))
       \<and> (\<not> isSpouseRelation body \<longrightarrow>
            (if believerSchema_validate (believerSchema_cast e
                  (memberData newId (fam_id fam) (calcAgeIST e (the (d_dob body))) None
                     (forcedSingle body)))
             then httpStatus (fst (addMember e newId i body s)) = 201
                \<and> (\<exists>B. snd (addMember e newId i body s) = s\<lparr>believers := believers s @ [B]\<rparr>
                       \<and> bel_id B = newId \<and> maritalStatus B = ''Single'' \<and> spouseId B = None
                       \<and> weddingDate B = None \<and> spouseName B = None)
             else addMember e newId i body s = (Inl ValidationError, s)))"
proof (intro conjI impI)
  assume "isSpouseRelation body"
  then show "addMember e newId i body s =
              (Inl (AppError ''A person under 18 cannot be added as Wife or Husband.'' 400), s)"
    using fam req age by (simp add: addMember_def addMember_minor_def Let_def)
next
  assume ns: "\<not> isSpouseRelation body"
  let ?age = "calcAgeIST e (the (d_dob body))"
  let ?doc = "believerSchema_cast e (memberData newId (fam_id fam) ?age None (forcedSingle body))"
  have m: "addMember_minor ?age body = Inr (forcedSingle body)"
    using age ns by (simp add: addMember_minor_def forcedSingle_def)
  have ns': "\<not> isSpouseRelation (forcedSingle body)"
    using ns by (simp add: isSpouseRelation_def forcedSingle_def)
  have sl: "addMember_spouseLogic ?age fam (forcedSingle body) s = Inr (forcedSingle body, False)"
    using age ns' by (simp add: addMember_spouseLogic_def)
  have sid: "d_spouseId (forcedSingle body) = None" by (simp add: forcedSingle_def)
  have r: "addMember e newId i body s =
            (if believerSchema_validate ?doc
             then (ok 201 ''Member added successfully.'', s\<lparr>believers := believers s @ [?doc]\<rparr>)
             else (Inl ValidationError, s))"
    using fam req m sl sid
    by (simp add: addMember_def Let_def Believer_create_def addMember_link_def truthy_def)
  have flds: "bel_id ?doc = newId" "maritalStatus ?doc = ''Single''" "spouseId ?doc = None"
             "weddingDate ?doc = None" "spouseName ?doc = None"
    by (simp_all add: believerSchema_cast_def memberData_def forcedSingle_def orElse_def truthy_def
          castDate_def trimOpt_def)
  show "if believerSchema_validate ?doc
        then httpStatus (fst (addMember e newId i body s)) = 201
                \<and> (\<exists>B. snd (addMember e newId i body s) = s\<lparr>believers := believers s @ [B]\<rparr>
                       \<and> bel_id B = newId \<and> maritalStatus B = ''Single'' \<and> spouseId B = None
                       \<and> weddingDate B = None \<and> spouseName B = None)
        else addMember e newId i body s = (Inl ValidationError, s)"
  proof (cases "believerSchema_validate ?doc")
    case True
    have "snd (addMember e newId i body s) = s\<lparr>believers := believers s @ [?doc]\<rparr>"
      unfolding r using True by simp
    with flds have "\<exists>B. snd (addMember e newId i body s) = s\<lparr>believers := believers s @ [B]\<rparr>
                       \<and> bel_id B = newId \<and> maritalStatus B = ''Single'' \<and> spouseId B = None
                       \<and> weddingDate B = None \<and> spouseName B = None"
      by blast
    moreover have "httpStatus (fst (addMember e newId i body s)) = 201"
      unfolding r using True by (simp add: httpStatus_def ok_def)
    ultimately show ?thesis using True by simp
  next
    case False
    then show ?thesis unfolding r by simp
  qed
qed

text \<open>
  On the example store: Anna, 15, is refused as a wife; sent as a daughter with
  \<open>maritalStatus\<close> Married, a spouse and a wedding date, she is created Single with
  none of them.
\<close>

theorem addMember_minor_guard_witness:
  "addMember ex_env ''n1'' ''f1'' (ex_member\<lparr>d_relationshipToHead := Some ''Wife''\<rparr>) ex_db =
      (Inl (AppError ''A person under 18 cannot be added as Wife or Husband.'' 400), ex_db)
   \<and> d_maritalStatus ex_member = Some ''Married'' \<and> d_spouseId ex_member = Some ''h1''
   \<and> httpStatus (fst (addMember ex_env ''n1'' ''f1'' ex_member ex_db)) = 201
   \<and> (\<exists>B. snd (addMember ex_env ''n1'' ''f1'' ex_member ex_db)
               = ex_db\<lparr>believers := believers ex_db @ [B]\<rparr>
          \<and> bel_id B = ''n1'' \<and> maritalStatus B = ''Single'' \<and> spouseId B = None
          \<and> weddingDate B = None \<and> spouseName B = None)"
proof -
  let ?w = "ex_member\<lparr>d_relationshipToHead := Some ''Wife''\<rparr>"
  have fam: "findOne (\<lambda>f. fam_id f = ''f1'' \<and> \<not> fam_isDeleted f) (families ex_db) = Some ex_family"
    by (simp add: findOne_def ex_defs)
  have req: "addMember_required ex_member = None" "addMember_required ?w = None"
    by (simp_all add: ex_defs addMember_defs)
  have age: "calcAgeIST ex_env (the (d_dob ex_member)) < 18"
            "calcAgeIST ex_env (the (d_dob ?w)) < 18"
    by (simp_all add: ex_defs addMember_defs)
  have sr: "isSpouseRelation ?w" "\<not> isSpouseRelation ex_member"
    by (simp_all add: ex_defs addMember_defs)
  have valid: "believerSchema_validate (believerSchema_cast ex_env
                  (memberData ''n1'' (fam_id ex_family) (calcAgeIST ex_env (the (d_dob ex_member))) None
                     (forcedSingle ex_member)))"
    by (simp add: ex_defs addMember_defs forcedSingle_def)
  from addMember_minor_guard[OF fam req(2) age(2), of "''n1''"] sr(1)
  have 1: "addMember ex_env ''n1'' ''f1'' ?w ex_db =
      (Inl (AppError ''A person under 18 cannot be added as Wife or Husband.'' 400), ex_db)"
    by simp
  from addMember_minor_guard[OF fam req(1) age(1), of "''n1''"] sr(2) valid
  have 2: "httpStatus (fst (addMember ex_env ''n1'' ''f1'' ex_member ex_db)) = 201
   \<and> (\<exists>B. snd (addMember ex_env ''n1'' ''f1'' ex_member ex_db)
               = ex_db\<lparr>believers := believers ex_db @ [B]\<rparr>
          \<and> bel_id B = ''n1'' \<and> maritalStatus B = ''Single'' \<and> spouseId B = None
          \<and> weddingDate B = None \<and> spouseName B = None)"
    by simp
  from 1 2 show ?thesis by (simp add: ex_defs)
qed

text \<open>
  The closing part of C4 does not hold. The check reads the \<open>spouseId\<close> of the head
  only; \<open>deleteBeliever\<close> clears it when the wife is moved to the trash and leaves
  the wife's own \<open>spouseId\<close>, and \<open>restoreBeliever\<close> checks no link. On the
  example store, after Mary is deleted, Ruth is added as wife and Mary is restored, each
  step answering 200 or 201, two believers who are not deleted have the relationship Wife
  and the \<open>spouseId\<close> of Mark, the head; Mark's \<open>spouseId\<close> names Ruth.
\<close>

theorem addMember_two_spouses_counterexample:
  "httpStatus (fst (deleteBeliever ex_env ''w1'' ex_db)) = 200
   \<and> httpStatus (fst (addMember ex_env ''n1'' ''f1'' ex_ruth
                        (run [DeleteBeliever ex_env ''w1''] ex_db))) = 201
   \<and> httpStatus (fst (restoreBeliever ''w1''
                        (run [DeleteBeliever ex_env ''w1'', AddMember ex_env ''n1'' ''f1'' ex_ruth]
                           ex_db))) = 200
   \<and> map bel_id (believers (run [DeleteBeliever ex_env ''w1'', AddMember ex_env ''n1'' ''f1'' ex_ruth,
                                   RestoreBeliever ''w1''] ex_db))
       = [''h1'', ''w1'', ''c1'', ''n1'']
   \<and> map isDeleted (believers (run [DeleteBeliever ex_env ''w1'', AddMember ex_env ''n1'' ''f1'' ex_ruth,
                                      RestoreBeliever ''w1''] ex_db))
       = [False, False, False, False]
   \<and> map relationshipToHead (believers (run [DeleteBeliever ex_env ''w1'',
                                               AddMember ex_env ''n1'' ''f1'' ex_ruth,
                                               RestoreBeliever ''w1''] ex_db))
       = [''Self'', ''Wife'', ''Son'', ''Wife'']
   \<and> map spouseId (believers (run [DeleteBeliever ex_env ''w1'', AddMember ex_env ''n1'' ''f1'' ex_ruth,
                                     RestoreBeliever ''w1''] ex_db))
       = [Some ''n1'', Some ''h1'', None, Some ''h1'']"
  by (simp add: deleteBeliever_def restoreBeliever_def addMember_def addMember_defs ex_defs
      Believer_save_def Believer_findByIdAndUpdate_def addMember_minor_def addMember_spouseLogic_def
      Believer_create_def addMember_link_def Let_def ok_def fail_def httpStatus_def)

section \<open>Deleting and restoring a family\<close>

lemma updateMany_twice:
  "updateMany (\<lambda>b. familyId b = i \<and> isDeleted b) (\<lambda>b. b\<lparr>isDeleted := False, deletedAt := None\<rparr>)
     (updateMany (\<lambda>b. familyId b = i \<and> \<not> isDeleted b) (\<lambda>b. b\<lparr>isDeleted := True, deletedAt := Some t\<rparr>) xs)
   = map (\<lambda>b. if familyId b = i then b\<lparr>isDeleted := False, deletedAt := None\<rparr> else b) xs"
  by (induction xs) (auto simp: updateMany_def)

lemma deleteFamily_effect:
  assumes d: "distinct (map fam_id (families s))"
    and F: "F \<in> set (families s)" and nd: "\<not> fam_isDeleted F"
    and C: "familyCode F \<noteq> Some []"
  shows "deleteFamily e (fam_id F) s =
          (ok 200 ''Family moved to trash.'',
           \<lparr>families = updateOne (\<lambda>f. fam_id f = fam_id F)
                          (\<lambda>f. F\<lparr>fam_isDeleted := True, fam_deletedAt := Some (now e), familyCode := None\<rparr>)
                          (families s),
            believers = updateMany (\<lambda>b. familyId b = fam_id F \<and> \<not> isDeleted b)
                          (\<lambda>b. b\<lparr>isDeleted := True, deletedAt := Some (now e)\<rparr>) (believers s)\<rparr>)"
proof -
  have f: "findOne (\<lambda>f. fam_id f = fam_id F \<and> \<not> fam_isDeleted f) (families s) = Some F"
    unfolding findOne_def
    using find_distinct_key_pred[OF d F, of "\<lambda>x. \<not> fam_isDeleted x"] nd by simp
  show ?thesis
  proof (cases "familyCode F")
    case None
    have eq: "F\<lparr>fam_isDeleted := True, fam_deletedAt := Some (now e), familyCode := None\<rparr>
              = F\<lparr>fam_isDeleted := True, fam_deletedAt := Some (now e)\<rparr>"
      using None by (cases F) simp
    show ?thesis using f nd None
      by (cases s) (simp add: eq deleteFamily_def Family_save_def familySchema_preSave_def truthy_def
          familyCode_conflict_def Let_def ok_def)
  next
    case (Some c)
    then have "c \<noteq> []" using C by simp
    then show ?thesis using f nd Some
      by (cases s) (simp add: deleteFamily_def Family_save_def familySchema_preSave_def truthy_def
          familyCode_conflict_def Let_def ok_def)
  qed
qed

lemma find_updateOne_hit:
  "find (\<lambda>b. key b = i) xs = Some x \<Longrightarrow> key (f x) = i \<Longrightarrow>
   find (\<lambda>b. key b = i) (updateOne (\<lambda>b. key b = i) f xs) = Some (f x)"
  by (induction xs) (auto split: if_splits)

lemma map_key_updateOne_const:
  "key y = i \<Longrightarrow> map key (updateOne (\<lambda>x. key x = i) (\<lambda>x. y) xs) = map key xs"
  by (induction xs) auto

lemma in_set_updateOne_const:
  "x \<in> set xs \<Longrightarrow> key x = i \<Longrightarrow> y \<in> set (updateOne (\<lambda>x. key x = i) (\<lambda>x. y) xs)"
  by (induction xs) auto

lemma restoreFamily_effect:
  assumes d: "distinct (map fam_id (families s))"
    and G: "G \<in> set (families s)" and del: "fam_isDeleted G"
    and free: "\<forall>g\<in>set (families s). fam_id g \<noteq> fam_id G \<longrightarrow>
                 familyCode g \<noteq> Some (famCode (countDocuments (\<lambda>f. \<not> fam_isDeleted f) (families s)))"
  shows "restoreFamily (fam_id G) s =
          (ok 200 (''Family restored with new code: ''
                    @ famCode (countDocuments (\<lambda>f. \<not> fam_isDeleted f) (families s))),
           \<lparr>families = updateOne (\<lambda>f. fam_id f = fam_id G)
                          (\<lambda>f. G\<lparr>fam_isDeleted := False, fam_deletedAt := None,
                                  familyCode := Some (famCode (countDocuments (\<lambda>f. \<not> fam_isDeleted f) (families s)))\<rparr>)
                          (families s),
            believers = updateMany (\<lambda>b. familyId b = fam_id G \<and> isDeleted b)
                          (\<lambda>b. b\<lparr>isDeleted := False, deletedAt := None\<rparr>) (believers s)\<rparr>)"
proof -
  have f: "findOne (\<lambda>f. fam_id f = fam_id G \<and> fam_isDeleted f) (families s) = Some G"
    unfolding findOne_def
    using find_distinct_key_pred[OF d G, of fam_isDeleted] del by simp
  have nc: "find (\<lambda>f. fam_id f \<noteq> fam_id G \<and>
                 familyCode f = Some (famCode (countDocuments (\<lambda>f. \<not> fam_isDeleted f) (families s))))
              (families s) = None"
    using free by (auto simp: find_None_iff)
  show ?thesis using f del nc
    by (cases s) (simp add: restoreFamily_def Family_save_def familySchema_preSave_def
          familyCode_conflict_def Let_def ok_def)
qed

text \<open>
  C6, as the code has it. Soft-deleting a non-deleted family F with code C and restoring
  it at once: the delete answers 200 and leaves F deleted with no code; the restore
  answers 200 and leaves F not deleted, with no deletion date and with the code
  FAM-n (n in four digits), n the number of non-deleted families before the delete,
  provided no other family holds that code; and every believer of F is then not deleted,
  with no deletion date, the other believers being unchanged. The new code is counted,
  not compared with C, and can be C again.
\<close>

theorem deleteFamily_restoreFamily_roundtrip:
  assumes d: "distinct (map fam_id (families s))"
    and F: "F \<in> set (families s)" and nd: "\<not> fam_isDeleted F"
    and C: "familyCode F = Some C" and Cne: "C \<noteq> []"
    and free: "\<forall>g\<in>set (families s). fam_id g \<noteq> fam_id F \<longrightarrow>
                 familyCode g \<noteq> Some (''FAM-'' @ padStart 4 (CHR ''0'')
                    (String_of (countDocuments (\<lambda>f. \<not> fam_isDeleted f) (families s))))"
  shows "httpStatus (fst (deleteFamily e (fam_id F) s)) = 200
       \<and> findOne (\<lambda>f. fam_id f = fam_id F) (families (snd (deleteFamily e (fam_id F) s)))
           = Some (F\<lparr>fam_isDeleted := True, fam_deletedAt := Some (now e), familyCode := None\<rparr>)
       \<and> httpStatus (fst (restoreFamily (fam_id F) (snd (deleteFamily e (fam_id F) s)))) = 200
       \<and> findOne (\<lambda>f. fam_id f = fam_id F) (families (deleteThenRestore e (fam_id F) s))
           = Some (F\<lparr>fam_isDeleted := False, fam_deletedAt := None,
                    familyCode := Some (''FAM-'' @ padStart 4 (CHR ''0'')
                      (String_of (countDocuments (\<lambda>f. \<not> fam_isDeleted f) (families s))))\<rparr>)
       \<and> believers (deleteThenRestore e (fam_id F) s)
           = map (\<lambda>b. if familyId b = fam_id F then b\<lparr>isDeleted := False, deletedAt := None\<rparr> else b)
               (believers s)"
proof -
  let ?i = "fam_id F"
  let ?F1 = "F\<lparr>fam_isDeleted := True, fam_deletedAt := Some (now e), familyCode := None\<rparr>"
  let ?n = "countDocuments (\<lambda>f. \<not> fam_isDeleted f) (families s)"
  let ?fs1 = "updateOne (\<lambda>f. fam_id f = ?i) (\<lambda>f. ?F1) (families s)"
  let ?bs1 = "updateMany (\<lambda>b. familyId b = ?i \<and> \<not> isDeleted b)
                (\<lambda>b. b\<lparr>isDeleted := True, deletedAt := Some (now e)\<rparr>) (believers s)"
  let ?s1 = "\<lparr>families = ?fs1, believers = ?bs1\<rparr>"
  have del: "deleteFamily e ?i s = (ok 200 ''Family moved to trash.'', ?s1)"
    using deleteFamily_effect[OF d F nd] C Cne by simp
  have d1: "distinct (map fam_id (families ?s1))"
    using d by (simp add: map_key_updateOne_const)
  have G: "?F1 \<in> set (families ?s1)"
    using in_set_updateOne_const[OF F, of fam_id ?i ?F1] by simp
  have npos: "0 < ?n"
    using F nd by (auto simp: countDocuments_def filter_empty_conv)
  have cnt: "countDocuments (\<lambda>f. \<not> fam_isDeleted f) (families ?s1) = ?n - 1"
    unfolding countDocuments_def
    using count_updateOne[OF d F, of "\<lambda>f. \<not> fam_isDeleted f" ?F1] nd by simp
  have code: "famCode (?n - 1) = ''FAM-'' @ padStart 4 (CHR ''0'') (String_of ?n)"
    using npos by (simp add: famCode_def)
  have free1: "\<forall>g\<in>set (families ?s1). fam_id g \<noteq> fam_id ?F1 \<longrightarrow>
                 familyCode g \<noteq> Some (famCode (countDocuments (\<lambda>f. \<not> fam_isDeleted f) (families ?s1)))"
    using free unfolding cnt code by (auto dest!: set_updateOne)
  have res: "restoreFamily ?i ?s1 =
          (ok 200 (''Family restored with new code: '' @ famCode (?n - 1)),
           \<lparr>families = updateOne (\<lambda>f. fam_id f = ?i)
                          (\<lambda>f. ?F1\<lparr>fam_isDeleted := False, fam_deletedAt := None,
                                  familyCode := Some (famCode (?n - 1))\<rparr>) ?fs1,
            believers = updateMany (\<lambda>b. familyId b = ?i \<and> isDeleted b)
                          (\<lambda>b. b\<lparr>isDeleted := False, deletedAt := None\<rparr>) ?bs1\<rparr>)"
    using restoreFamily_effect[OF d1 G _ free1] unfolding cnt by simp
  have fF: "find (\<lambda>f. fam_id f = ?i) (families s) = Some F"
    using find_distinct_key[OF d F] .
  have f1: "find (\<lambda>f. fam_id f = ?i) ?fs1 = Some ?F1"
    using find_updateOne_hit[OF fF, of "\<lambda>f. ?F1"] by simp
  have s1: "snd (deleteFamily e ?i s) = ?s1" using del by simp
  have c1: "httpStatus (fst (deleteFamily e ?i s)) = 200"
    using del by (simp add: httpStatus_def ok_def)
  have c2: "findOne (\<lambda>f. fam_id f = ?i) (families (snd (deleteFamily e ?i s))) = Some ?F1"
    unfolding s1 findOne_def using f1 by simp
  have c3: "httpStatus (fst (restoreFamily ?i (snd (deleteFamily e ?i s)))) = 200"
    unfolding s1 res by (simp add: httpStatus_def ok_def)
  have rec: "?F1\<lparr>fam_isDeleted := False, fam_deletedAt := None, familyCode := Some (famCode (?n - 1))\<rparr>
           = F\<lparr>fam_isDeleted := False, fam_deletedAt := None, familyCode := Some (famCode (?n - 1))\<rparr>"
    by simp
  have c4: "findOne (\<lambda>f. fam_id f = ?i) (families (deleteThenRestore e ?i s))
           = Some (F\<lparr>fam_isDeleted := False, fam_deletedAt := None,
                    familyCode := Some (famCode (?n - 1))\<rparr>)"
    unfolding deleteThenRestore_def s1 res findOne_def
    using find_updateOne_hit[OF f1, of "\<lambda>f. ?F1\<lparr>fam_isDeleted := False, fam_deletedAt := None,
                                  familyCode := Some (famCode (?n - 1))\<rparr>"] rec
    by simp
  have c5: "believers (deleteThenRestore e ?i s)
           = map (\<lambda>b. if familyId b = ?i then b\<lparr>isDeleted := False, deletedAt := None\<rparr> else b)
               (believers s)"
    unfolding deleteThenRestore_def s1 res by (simp add: updateMany_twice)
  show ?thesis using c1 c2 c3 c4 c5 unfolding code by blast
qed

text \<open>
  On the second example store: Paul's family FAM-0002 is the only family out of the
  trash, so it comes back from the round trip as FAM-0001, with Paul not deleted.
\<close>

theorem deleteFamily_restoreFamily_roundtrip_witness:
  "map familyCode (families (deleteThenRestore ex_env ''f2'' ex_db2)) = [None, Some ''FAM-0001'']
   \<and> map fam_isDeleted (families (deleteThenRestore ex_env ''f2'' ex_db2)) = [True, False]
   \<and> map isDeleted (believers (deleteThenRestore ex_env ''f2'' ex_db2)) = [True, True, True, False]"
proof -
  let ?F = "ex_family\<lparr>fam_id := ''f2'', familyCode := Some ''FAM-0002'', headId := Some ''h2''\<rparr>"
  have d: "distinct (map fam_id (families ex_db2))" by (simp add: ex_defs)
  have F: "?F \<in> set (families ex_db2)" "\<not> fam_isDeleted ?F"
          "familyCode ?F = Some ''FAM-0002''" "''FAM-0002'' \<noteq> []"
    by (simp_all add: ex_defs)
  have n: "countDocuments (\<lambda>f. \<not> fam_isDeleted f) (families ex_db2) = 1"
    by (simp add: countDocuments_def ex_defs)
  have free: "\<forall>g\<in>set (families ex_db2). fam_id g \<noteq> fam_id ?F \<longrightarrow>
                 familyCode g \<noteq> Some (''FAM-'' @ padStart 4 (CHR ''0'')
                    (String_of (countDocuments (\<lambda>f. \<not> fam_isDeleted f) (families ex_db2))))"
    by (simp add: ex_defs)
  have i: "fam_id ?F = ''f2''" by (simp add: ex_defs)
  from deleteFamily_restoreFamily_roundtrip[OF d F free, of ex_env]
  have r: "findOne (\<lambda>f. fam_id f = ''f2'') (families (deleteThenRestore ex_env ''f2'' ex_db2))
           = Some (?F\<lparr>fam_isDeleted := False, fam_deletedAt := None,
                    familyCode := Some (''FAM-'' @ padStart 4 (CHR ''0'') (String_of 1))\<rparr>)"
    unfolding i n by blast
  have ev: "deleteThenRestore ex_env ''f2'' ex_db2 =
     \<lparr>families = families ex_trashed @
                   [?F\<lparr>fam_isDeleted := False, fam_deletedAt := None, familyCode := Some ''FAM-0001''\<rparr>],
      believers = believers ex_db2\<rparr>"
    by (simp add: deleteThenRestore_def deleteFamily_def restoreFamily_def ex_defs findOne_def
        Family_save_def familySchema_preSave_def truthy_def familyCode_conflict_def
        countDocuments_def famCode_def padStart_def digitChar_def Let_def ok_def numeral_3_eq_3
        String_of.simps updateMany_def)
  from r show ?thesis unfolding ev by (simp add: ex_defs)
qed

text \<open>
  C6 as the claim words it fails: the example family is the only one, its code is
  FAM-0001, and the round trip gives it FAM-0001 again.
\<close>

theorem restoreFamily_same_code_counterexample:
  "familyCode ex_family = Some ''FAM-0001''
   \<and> map familyCode (families (deleteThenRestore ex_env ''f1'' ex_db)) = [Some ''FAM-0001'']
   \<and> map fam_isDeleted (families (deleteThenRestore ex_env ''f1'' ex_db)) = [False]"
  by (simp add: deleteThenRestore_def deleteFamily_def restoreFamily_def ex_defs findOne_def
      Family_save_def familySchema_preSave_def truthy_def familyCode_conflict_def
      countDocuments_def famCode_def padStart_def digitChar_def Let_def ok_def numeral_3_eq_3
      String_of.simps)

section \<open>Permanent deletion\<close>

text \<open>
  C10. Permanently deleting a trashed believer answers 200 and removes the record whether
  or not the believer is a head, and no family is changed: a family whose \<open>headId\<close> is
  that believer keeps it, now referring to no stored believer. Emptying the trash removes
  every trashed believer, reports their number, and changes no family either.
\<close>

theorem permanentDelete_ignores_head:
  assumes d: "distinct (map bel_id (believers s))"
    and b: "b \<in> set (believers s)" and del: "isDeleted b"
  shows "httpStatus (fst (permanentDeleteBeliever (bel_id b) s)) = 200
       \<and> families (snd (permanentDeleteBeliever (bel_id b) s)) = families s
       \<and> Believer_findById (bel_id b) (snd (permanentDeleteBeliever (bel_id b) s)) = None
       \<and> fst (emptyBelieverTrash s) =
           Inr \<lparr>status = 200, code = None,
                 message = String_of (length (filter isDeleted (believers s)))
                             @ '' believer(s) permanently deleted from trash.'',
                 count = Some (length (filter isDeleted (believers s)))\<rparr>
       \<and> families (snd (emptyBelieverTrash s)) = families s
       \<and> believers (snd (emptyBelieverTrash s)) = filter (\<lambda>x. \<not> isDeleted x) (believers s)"
proof -
  have f: "findOne (\<lambda>x. bel_id x = bel_id b \<and> isDeleted x) (believers s) = Some b"
    unfolding findOne_def using find_distinct_key_pred[OF d b, of isDeleted] del by simp
  have none: "find (\<lambda>x. bel_id x = bel_id b)
                (deleteOne (\<lambda>x. bel_id x = bel_id b) (believers s)) = None"
    using find_deleteOne_key[OF d] .
  show ?thesis
    using f none
    by (simp add: permanentDeleteBeliever_def emptyBelieverTrash_def httpStatus_def ok_def
        Believer_findById_def findOne_def deleteMany_def countDocuments_def Let_def)
qed

text \<open>
  On the trashed example family: Mark, its head, is permanently deleted; the family still
  names him as head, and no believer has that id any more.
\<close>

theorem permanentDelete_ignores_head_witness:
  "isHead ex_head
   \<and> httpStatus (fst (permanentDeleteBeliever ''h1'' ex_trashed)) = 200
   \<and> map headId (families (snd (permanentDeleteBeliever ''h1'' ex_trashed))) = [Some ''h1'']
   \<and> Believer_findById ''h1'' (snd (permanentDeleteBeliever ''h1'' ex_trashed)) = None"
proof -
  have d: "distinct (map bel_id (believers ex_trashed))" by (simp add: ex_defs)
  have h: "ex_head\<lparr>isDeleted := True, deletedAt := Some 1790812800000\<rparr> \<in> set (believers ex_trashed)"
    by (simp add: ex_defs)
  from permanentDelete_ignores_head[OF d h] show ?thesis by (simp add: ex_defs)
qed

section \<open>The head of a family\<close>

subsection \<open>Each operation keeps the invariant\<close>

lemma headInv_exactlyOne:
  assumes inv: "headInv s"
  shows "headExactlyOne s"
  unfolding headExactlyOne_def
proof (intro ballI impI)
  fix f assume f: "f \<in> set (families s)" and nd: "\<not> fam_isDeleted f"
  from inv f obtain b where b: "b \<in> set (believers s)" "headId f = Some (bel_id b)"
      "familyId b = fam_id f" "isHead b" "relationshipToHead b = ''Self''" "\<not> fam_isDeleted f \<longrightarrow> \<not> isDeleted b"
    unfolding headInv_def by blast
  have db: "distinct (map bel_id (believers s))" and df: "distinct (map fam_id (families s))"
    using inv unfolding headInv_def by auto
  have u: "\<And>y. y \<in> set (believers s) \<Longrightarrow> \<not> isDeleted y \<and> isHead y \<and> familyId y = fam_id f \<Longrightarrow> bel_id y = bel_id b"
  proof -
    fix y assume y: "y \<in> set (believers s)" and py: "\<not> isDeleted y \<and> isHead y \<and> familyId y = fam_id f"
    from inv y py obtain g where g: "g \<in> set (families s)" "fam_id g = familyId y" "headId g = Some (bel_id y)"
      unfolding headInv_def by blast
    have "g = f" using same_key_same_elem[OF df g(1) f] g(2) py by simp
    with g(3) b(2) show "bel_id y = bel_id b" by simp
  qed
  have "filter (\<lambda>b. \<not> isDeleted b \<and> isHead b \<and> familyId b = fam_id f) (believers s) = [b]"
  proof (rule filter_singleton_distinct[OF db b(1)])
    show "\<not> isDeleted b \<and> isHead b \<and> familyId b = fam_id f" using b nd by simp
  next
    fix y assume "y \<in> set (believers s)" "\<not> isDeleted y \<and> isHead y \<and> familyId y = fam_id f"
    then show "bel_id y = bel_id b" by (rule u)
  qed
  with b(5) show "length (headsOf f s) = 1 \<and>
        (\<forall>b\<in>set (headsOf f s). relationshipToHead b = ''Self'')"
    by (simp add: headsOf_def)
qed

lemma headInv_map:
  assumes inv: "headInv s"
    and fams: "families s' = map \<psi> (families s)"
    and bels: "believers s' = map \<phi> (believers s) @ news"
    and psi: "\<And>f. f \<in> set (families s) \<Longrightarrow> fam_id (\<psi> f) = fam_id f \<and> headId (\<psi> f) = headId f"
    and phi: "\<And>b. b \<in> set (believers s) \<Longrightarrow>
               bel_id (\<phi> b) = bel_id b \<and> familyId (\<phi> b) = familyId b \<and>
               isHead (\<phi> b) = isHead b \<and> relationshipToHead (\<phi> b) = relationshipToHead b"
    and del: "\<And>f b. f \<in> set (families s) \<Longrightarrow> b \<in> set (believers s) \<Longrightarrow> isHead b \<Longrightarrow>
               familyId b = fam_id f \<Longrightarrow> (\<not> fam_isDeleted f \<longrightarrow> \<not> isDeleted b) \<Longrightarrow>
               \<not> fam_isDeleted (\<psi> f) \<Longrightarrow> \<not> isDeleted (\<phi> b)"
    and new1: "\<And>n. n \<in> set news \<Longrightarrow> \<not> isHead n"
    and new2: "distinct (map bel_id news)"
    and new3: "\<And>n. n \<in> set news \<Longrightarrow> bel_id n \<notin> set (map bel_id (believers s))"
  shows "headInv s'"
proof -
  have db: "distinct (map bel_id (believers s))" and df: "distinct (map fam_id (families s))"
    using inv unfolding headInv_def by auto
  have mb: "map (\<lambda>b. bel_id (\<phi> b)) (believers s) = map bel_id (believers s)"
    using phi by (intro map_cong) auto
  have mf: "map (\<lambda>f. fam_id (\<psi> f)) (families s) = map fam_id (families s)"
    using psi by (intro map_cong) auto
  have disj: "set (map bel_id (believers s)) \<inter> set (map bel_id news) = {}"
  proof (rule ccontr)
    assume "set (map bel_id (believers s)) \<inter> set (map bel_id news) \<noteq> {}"
    then obtain k where k: "k \<in> set (map bel_id (believers s))" "k \<in> set (map bel_id news)"
      by blast
    from k(2) obtain n where "n \<in> set news" "k = bel_id n" by auto
    with new3[of n] k(1) show False by simp
  qed
  have 1: "distinct (map bel_id (believers s'))"
    unfolding bels using db new2 disj by (simp add: o_def mb)
  have 2: "distinct (map fam_id (families s'))"
    unfolding fams using df by (simp add: o_def mf)
  have 3: "\<forall>f\<in>set (families s'). \<exists>b\<in>set (believers s').
         headId f = Some (bel_id b) \<and> familyId b = fam_id f \<and> isHead b \<and>
         relationshipToHead b = ''Self'' \<and> (\<not> fam_isDeleted f \<longrightarrow> \<not> isDeleted b)"
  proof
    fix f' assume "f' \<in> set (families s')"
    then obtain f where f: "f \<in> set (families s)" "f' = \<psi> f" unfolding fams by auto
    from inv f(1) obtain b where b: "b \<in> set (believers s)" "headId f = Some (bel_id b)"
      "familyId b = fam_id f" "isHead b" "relationshipToHead b = ''Self''"
      "\<not> fam_isDeleted f \<longrightarrow> \<not> isDeleted b"
      unfolding headInv_def by blast
    have in': "\<phi> b \<in> set (believers s')" unfolding bels using b(1) by simp
    have "headId f' = Some (bel_id (\<phi> b))" using psi[OF f(1)] phi[OF b(1)] b(2) f(2) by simp
    moreover have "familyId (\<phi> b) = fam_id f'" using psi[OF f(1)] phi[OF b(1)] b(3) f(2) by simp
    moreover have "isHead (\<phi> b)" using phi[OF b(1)] b(4) by simp
    moreover have "relationshipToHead (\<phi> b) = ''Self''" using phi[OF b(1)] b(5) by simp
    moreover have "\<not> fam_isDeleted f' \<longrightarrow> \<not> isDeleted (\<phi> b)"
      using del[OF f(1) b(1) b(4) b(3) b(6)] f(2) by blast
    ultimately show "\<exists>b\<in>set (believers s').
         headId f' = Some (bel_id b) \<and> familyId b = fam_id f' \<and> isHead b \<and>
         relationshipToHead b = ''Self'' \<and> (\<not> fam_isDeleted f' \<longrightarrow> \<not> isDeleted b)"
      using in' by blast
  qed
  have 4: "\<forall>b\<in>set (believers s'). isHead b \<longrightarrow>
         (\<exists>f\<in>set (families s'). fam_id f = familyId b \<and> headId f = Some (bel_id b))"
  proof (intro ballI impI)
    fix b' assume b': "b' \<in> set (believers s')" and h: "isHead b'"
    then have "b' \<in> set (map \<phi> (believers s))" unfolding bels using new1 by auto
    then obtain b where b: "b \<in> set (believers s)" "b' = \<phi> b" by auto
    then have hb: "isHead b" using phi[OF b(1)] h by simp
    from inv b(1) hb obtain f where f: "f \<in> set (families s)" "fam_id f = familyId b"
        "headId f = Some (bel_id b)"
      unfolding headInv_def by blast
    have "\<psi> f \<in> set (families s')" unfolding fams using f(1) by simp
    moreover have "fam_id (\<psi> f) = familyId b'" using psi[OF f(1)] phi[OF b(1)] f(2) b(2) by simp
    moreover have "headId (\<psi> f) = Some (bel_id b')" using psi[OF f(1)] phi[OF b(1)] f(3) b(2) by simp
    ultimately show "\<exists>f\<in>set (families s'). fam_id f = familyId b' \<and> headId f = Some (bel_id b')"
      by blast
  qed
  show ?thesis unfolding headInv_def using 1 2 3 4 by blast
qed

lemma believers_update_map:
  assumes "distinct (map bel_id (believers s))"
  shows "believers (Believer_findByIdAndUpdate k g s)
           = map (\<lambda>x. if bel_id x = k then g x else x) (believers s)"
    and "believers (Believer_save k g s)
           = map (\<lambda>x. if bel_id x = k then g x else x) (believers s)"
  using updateOne_map[OF assms, of "\<lambda>x. bel_id x = k" k g]
  by (simp_all add: Believer_findByIdAndUpdate_def Believer_save_def)

lemma families_update [simp]:
  "families (Believer_findByIdAndUpdate k g s) = families s"
  "families (Believer_save k g s) = families s"
  by (simp_all add: Believer_findByIdAndUpdate_def Believer_save_def)

text \<open>A change of believers, one by one, that keeps the fields the invariant reads.\<close>

lemma headInv_inert:
  assumes inv: "headInv s"
    and fams: "families s' = families s"
    and bels: "believers s' = map \<phi> (believers s)"
    and phi: "\<And>b. b \<in> set (believers s) \<Longrightarrow>
               bel_id (\<phi> b) = bel_id b \<and> familyId (\<phi> b) = familyId b \<and>
               isHead (\<phi> b) = isHead b \<and> relationshipToHead (\<phi> b) = relationshipToHead b \<and>
               (isHead b \<longrightarrow> isDeleted (\<phi> b) \<longrightarrow> isDeleted b)"
  shows "headInv s'"
proof (rule headInv_map[OF inv, where \<psi> = "\<lambda>f. f" and \<phi> = \<phi> and news = "[]"])
  show "families s' = map (\<lambda>f. f) (families s)" using fams by simp
  show "believers s' = map \<phi> (believers s) @ []" using bels by simp
  show "\<And>b. b \<in> set (believers s) \<Longrightarrow>
               bel_id (\<phi> b) = bel_id b \<and> familyId (\<phi> b) = familyId b \<and>
               isHead (\<phi> b) = isHead b \<and> relationshipToHead (\<phi> b) = relationshipToHead b"
    using phi by blast
  show "\<And>f b. f \<in> set (families s) \<Longrightarrow> b \<in> set (believers s) \<Longrightarrow> isHead b \<Longrightarrow>
               familyId b = fam_id f \<Longrightarrow> (\<not> fam_isDeleted f \<longrightarrow> \<not> isDeleted b) \<Longrightarrow>
               \<not> fam_isDeleted f \<Longrightarrow> \<not> isDeleted (\<phi> b)"
    using phi by blast
qed simp_all

lemma headInv_findByIdAndUpdate:
  assumes inv: "headInv s"
    and g: "\<And>b. b \<in> set (believers s) \<Longrightarrow> bel_id b = k \<Longrightarrow>
               bel_id (g b) = bel_id b \<and> familyId (g b) = familyId b \<and>
               isHead (g b) = isHead b \<and> relationshipToHead (g b) = relationshipToHead b \<and>
               (isHead b \<longrightarrow> isDeleted (g b) \<longrightarrow> isDeleted b)"
  shows "headInv (Believer_findByIdAndUpdate k g s)" and "headInv (Believer_save k g s)"
proof -
  have d: "distinct (map bel_id (believers s))" using inv unfolding headInv_def by simp
  show "headInv (Believer_findByIdAndUpdate k g s)"
    by (rule headInv_inert[OF inv _ believers_update_map(1)[OF d]]) (use g in auto)
  show "headInv (Believer_save k g s)"
    by (rule headInv_inert[OF inv _ believers_update_map(2)[OF d]]) (use g in auto)
qed

lemma headInv_deleteBeliever:
  assumes inv: "headInv s"
  shows "headInv (snd (deleteBeliever e i s))"
proof (cases "findOne (\<lambda>b. bel_id b = i \<and> \<not> isDeleted b) (believers s)")
  case None
  then show ?thesis using inv by (simp add: deleteBeliever_def)
next
  case (Some b)
  then have b: "b \<in> set (believers s)" "bel_id b = i"
    unfolding findOne_def by (auto dest: find_SomeD)
  have d: "distinct (map bel_id (believers s))" using inv unfolding headInv_def by simp
  show ?thesis
  proof (cases "isHead b")
    case True
    then show ?thesis using Some inv by (simp add: deleteBeliever_def)
  next
    case False
    let ?s1 = "Believer_save (bel_id b) (\<lambda>b. b\<lparr>isDeleted := True, deletedAt := Some (now e)\<rparr>) s"
    have 1: "headInv ?s1"
    proof (rule headInv_findByIdAndUpdate(2)[OF inv])
      fix x assume x: "x \<in> set (believers s)" "bel_id x = bel_id b"
      then have "x = b" using same_key_same_elem[OF d x(1) b(1)] by simp
      then show "bel_id (x\<lparr>isDeleted := True, deletedAt := Some (now e)\<rparr>) = bel_id x \<and>
         familyId (x\<lparr>isDeleted := True, deletedAt := Some (now e)\<rparr>) = familyId x \<and>
         isHead (x\<lparr>isDeleted := True, deletedAt := Some (now e)\<rparr>) = isHead x \<and>
         relationshipToHead (x\<lparr>isDeleted := True, deletedAt := Some (now e)\<rparr>) = relationshipToHead x \<and>
         (isHead x \<longrightarrow> isDeleted (x\<lparr>isDeleted := True, deletedAt := Some (now e)\<rparr>) \<longrightarrow> isDeleted x)"
        using False by simp
    qed
    show ?thesis
    proof (cases "spouseId b")
      case None
      then show ?thesis using Some False 1 by (simp add: deleteBeliever_def Let_def)
    next
      case (Some sp)
      have "headInv (Believer_findByIdAndUpdate sp
               (\<lambda>t. t\<lparr>spouseId := None, spouseName := Some (trim (fullName b))\<rparr>) ?s1)"
        by (rule headInv_findByIdAndUpdate(1)[OF 1]) simp
      then show ?thesis using \<open>findOne _ _ = Some b\<close> False Some
        by (simp add: deleteBeliever_def Let_def)
    qed
  qed
qed

lemma headInv_restoreBeliever:
  assumes inv: "headInv s"
  shows "headInv (snd (restoreBeliever i s))"
proof -
  have "\<And>k. headInv (Believer_save k (\<lambda>b. b\<lparr>isDeleted := False, deletedAt := None\<rparr>) s)"
    by (rule headInv_findByIdAndUpdate(2)[OF inv]) simp
  then show ?thesis using inv
    by (simp add: restoreBeliever_def split: option.splits)
qed

lemma headInv_syncSpouse:
  assumes inv: "headInv s"
  shows "headInv (syncSpouse i u b s)"
proof -
  have "\<And>k v. headInv (Believer_findByIdAndUpdate k (\<lambda>t. t\<lparr>spouseId := v\<rparr>) s)"
    by (rule headInv_findByIdAndUpdate(1)[OF inv]) simp
  then show ?thesis using inv
    by (simp add: syncSpouse_def split: option.splits)
qed

lemma headInv_updateBeliever:
  assumes inv: "headInv s"
  shows "headInv (snd (updateBeliever e i body s))"
proof -
  have d: "distinct (map bel_id (believers s))" using inv unfolding headInv_def by simp
  have upd: "\<And>u. headInv (s\<lparr>believers :=
                 updateOne (\<lambda>b. bel_id b = i \<and> \<not> isDeleted b) (applyUpdate e u) (believers s)\<rparr>)"
  proof -
    fix u
    have m: "updateOne (\<lambda>b. bel_id b = i \<and> \<not> isDeleted b) (applyUpdate e u) (believers s)
               = map (\<lambda>x. if bel_id x = i \<and> \<not> isDeleted x then applyUpdate e u x else x) (believers s)"
      by (rule updateOne_map[OF d, of _ i]) simp
    show "headInv (s\<lparr>believers :=
                 updateOne (\<lambda>b. bel_id b = i \<and> \<not> isDeleted b) (applyUpdate e u) (believers s)\<rparr>)"
      by (rule headInv_inert[OF inv, where \<phi> = "\<lambda>x. if bel_id x = i \<and> \<not> isDeleted x then applyUpdate e u x else x"])
         (simp_all add: m)
  qed
  show ?thesis using inv upd headInv_syncSpouse
    by (simp add: updateBeliever_def Let_def split: sum.splits option.splits)
qed

lemma headInv_addMember_link:
  assumes inv: "headInv s"
  shows "headInv (addMember_link fam member auto sid s)"
proof -
  have 1: "\<And>s' k v w. headInv s' \<Longrightarrow>
             headInv (Believer_findByIdAndUpdate k (\<lambda>t. t\<lparr>spouseId := v, spouseName := w t\<rparr>) s')"
    by (rule headInv_findByIdAndUpdate(1)) simp_all
  have 2: "\<And>s' k v w. headInv s' \<Longrightarrow>
             headInv (Believer_findByIdAndUpdate k
                        (\<lambda>t. t\<lparr>spouseId := v, spouseName := w, maritalStatus := ''Married''\<rparr>) s')"
    by (rule headInv_findByIdAndUpdate(1)) simp_all
  have 3: "\<And>k v. headInv (Believer_findByIdAndUpdate k (\<lambda>t. t\<lparr>spouseId := v\<rparr>) s)"
    by (rule headInv_findByIdAndUpdate(1)[OF inv]) simp
  show ?thesis using inv 1 2 3
    by (simp add: addMember_link_def Let_def split: option.splits)
qed

lemma headInv_create:
  assumes inv: "headInv s" and fresh: "bel_id doc \<notin> set (map bel_id (believers s))"
    and nh: "\<not> isHead doc"
  shows "headInv (s\<lparr>believers := believers s @ [doc]\<rparr>)"
  by (rule headInv_map[OF inv, where \<psi> = "\<lambda>f. f" and \<phi> = "\<lambda>b. b" and news = "[doc]"])
     (use fresh nh in simp_all)

lemma headInv_addMember:
  assumes inv: "headInv s" and fresh: "newId \<notin> set (map bel_id (believers s))"
  shows "headInv (snd (addMember e newId i body s))"
proof -
  have c: "\<And>famId age sid data.
             headInv (s\<lparr>believers := believers s @
                        [believerSchema_cast e (memberData newId famId age sid data)]\<rparr>)"
    by (rule headInv_create[OF inv]) (use fresh in \<open>simp_all add: believerSchema_cast_def memberData_def\<close>)
  show ?thesis using inv c headInv_addMember_link
    by (simp add: addMember_def fail_def Let_def Believer_create_def
          split: option.splits sum.splits prod.splits)
qed

lemma preSave_keys [simp]:
  "fam_id (familySchema_preSave n m this s) = fam_id this"
  "headId (familySchema_preSave n m this s) = headId this"
  "fam_isDeleted (familySchema_preSave n m this s) = fam_isDeleted this"
  by (simp_all add: familySchema_preSave_def Let_def)

lemma Family_save_Inr:
  assumes "Family_save loaded this s = Inr s'" and d: "distinct (map fam_id (families s))"
  shows "\<exists>this1. fam_id this1 = fam_id this \<and> headId this1 = headId this \<and>
           fam_isDeleted this1 = fam_isDeleted this \<and> believers s' = believers s \<and>
           families s' = map (\<lambda>f. if fam_id f = fam_id this then this1 else f) (families s)"
proof -
  let ?t = "familySchema_preSave False (fam_isDeleted this \<noteq> fam_isDeleted loaded) this s"
  have s': "s' = s\<lparr>families := updateOne (\<lambda>f. fam_id f = fam_id ?t) (\<lambda>f. ?t) (families s)\<rparr>"
    using assms(1) by (simp add: Family_save_def Let_def split: if_splits)
  have "updateOne (\<lambda>f. fam_id f = fam_id this) (\<lambda>f. ?t) (families s)
          = map (\<lambda>f. if fam_id f = fam_id this then ?t else f) (families s)"
    by (rule updateOne_map[OF d, of _ "fam_id this"]) simp
  then show ?thesis using s' by (intro exI[of _ ?t]) simp
qed

lemma headInv_deleteFamily:
  assumes inv: "headInv s"
  shows "headInv (snd (deleteFamily e i s))"
proof (cases "findOne (\<lambda>f. fam_id f = i \<and> \<not> fam_isDeleted f) (families s)")
  case None
  then show ?thesis using inv by (simp add: deleteFamily_def fail_def)
next
  case (Some fam)
  then have fam: "fam \<in> set (families s)" "fam_id fam = i"
    unfolding findOne_def by (auto dest: find_SomeD)
  have df: "distinct (map fam_id (families s))" using inv unfolding headInv_def by simp
  let ?this = "fam\<lparr>fam_isDeleted := True, fam_deletedAt := Some (now e)\<rparr>"
  show ?thesis
  proof (cases "Family_save fam ?this s")
    case (Inl err)
    then show ?thesis using Some inv by (simp add: deleteFamily_def)
  next
    case (Inr s1)
    from Family_save_Inr[OF Inr df] obtain this1 where t:
      "fam_id this1 = i" "headId this1 = headId fam" "fam_isDeleted this1"
      "believers s1 = believers s"
      "families s1 = map (\<lambda>f. if fam_id f = i then this1 else f) (families s)"
      using fam(2) by auto
    let ?s' = "s1\<lparr>believers := updateMany (\<lambda>b. familyId b = fam_id fam \<and> \<not> isDeleted b)
                       (\<lambda>b. b\<lparr>isDeleted := True, deletedAt := Some (now e)\<rparr>) (believers s1)\<rparr>"
    have r: "snd (deleteFamily e i s) = ?s'"
      using Some Inr by (simp add: deleteFamily_def)
    have "headInv ?s'"
    proof (rule headInv_map[OF inv, where \<psi> = "\<lambda>f. if fam_id f = i then this1 else f"
          and \<phi> = "\<lambda>b. if familyId b = i \<and> \<not> isDeleted b
                        then b\<lparr>isDeleted := True, deletedAt := Some (now e)\<rparr> else b"
          and news = "[]"])
      show "families ?s' = map (\<lambda>f. if fam_id f = i then this1 else f) (families s)"
        using t(5) by simp
      show "believers ?s' = map (\<lambda>b. if familyId b = i \<and> \<not> isDeleted b
                        then b\<lparr>isDeleted := True, deletedAt := Some (now e)\<rparr> else b) (believers s) @ []"
        using t(4) fam(2) by (simp add: updateMany_def)
    next
      fix f assume f: "f \<in> set (families s)"
      show "fam_id (if fam_id f = i then this1 else f) = fam_id f \<and>
            headId (if fam_id f = i then this1 else f) = headId f"
      proof (cases "fam_id f = i")
        case True
        then have "f = fam" using same_key_same_elem[OF df f fam(1)] fam(2) by simp
        with True t show ?thesis by simp
      next
        case False
        then show ?thesis by simp
      qed
    next
      fix f b assume "f \<in> set (families s)" "b \<in> set (believers s)" "isHead b"
        "familyId b = fam_id f" "\<not> fam_isDeleted f \<longrightarrow> \<not> isDeleted b"
        "\<not> fam_isDeleted (if fam_id f = i then this1 else f)"
      then show "\<not> isDeleted (if familyId b = i \<and> \<not> isDeleted b
                        then b\<lparr>isDeleted := True, deletedAt := Some (now e)\<rparr> else b)"
        using t(3) by (auto split: if_splits)
    qed simp_all
    then show ?thesis using r by simp
  qed
qed

lemma headInv_restoreFamily:
  assumes inv: "headInv s"
  shows "headInv (snd (restoreFamily i s))"
proof (cases "findOne (\<lambda>f. fam_id f = i \<and> fam_isDeleted f) (families s)")
  case None
  then show ?thesis using inv by (simp add: restoreFamily_def fail_def)
next
  case (Some fam)
  then have fam: "fam \<in> set (families s)" "fam_id fam = i"
    unfolding findOne_def by (auto dest: find_SomeD)
  have df: "distinct (map fam_id (families s))" using inv unfolding headInv_def by simp
  let ?this = "fam\<lparr>fam_isDeleted := False, fam_deletedAt := None,
                   familyCode := Some (famCode (countDocuments (\<lambda>f. \<not> fam_isDeleted f) (families s)))\<rparr>"
  show ?thesis
  proof (cases "Family_save fam ?this s")
    case (Inl err)
    then show ?thesis using Some inv by (simp add: restoreFamily_def Let_def)
  next
    case (Inr s1)
    from Family_save_Inr[OF Inr df] obtain this1 where t:
      "fam_id this1 = i" "headId this1 = headId fam" "\<not> fam_isDeleted this1"
      "believers s1 = believers s"
      "families s1 = map (\<lambda>f. if fam_id f = i then this1 else f) (families s)"
      using fam(2) by auto
    let ?s' = "s1\<lparr>believers := updateMany (\<lambda>b. familyId b = fam_id fam \<and> isDeleted b)
                       (\<lambda>b. b\<lparr>isDeleted := False, deletedAt := None\<rparr>) (believers s1)\<rparr>"
    have r: "snd (restoreFamily i s) = ?s'"
      using Some Inr by (simp add: restoreFamily_def Let_def)
    have "headInv ?s'"
    proof (rule headInv_map[OF inv, where \<psi> = "\<lambda>f. if fam_id f = i then this1 else f"
          and \<phi> = "\<lambda>b. if familyId b = i \<and> isDeleted b
                        then b\<lparr>isDeleted := False, deletedAt := None\<rparr> else b"
          and news = "[]"])
      show "families ?s' = map (\<lambda>f. if fam_id f = i then this1 else f) (families s)"
        using t(5) by simp
      show "believers ?s' = map (\<lambda>b. if familyId b = i \<and> isDeleted b
                        then b\<lparr>isDeleted := False, deletedAt := None\<rparr> else b) (believers s) @ []"
        using t(4) fam(2) by (simp add: updateMany_def)
    next
      fix f assume f: "f \<in> set (families s)"
      show "fam_id (if fam_id f = i then this1 else f) = fam_id f \<and>
            headId (if fam_id f = i then this1 else f) = headId f"
      proof (cases "fam_id f = i")
        case True
        then have "f = fam" using same_key_same_elem[OF df f fam(1)] fam(2) by simp
        with True t show ?thesis by simp
      next
        case False
        then show ?thesis by simp
      qed
    next
      fix f b assume "f \<in> set (families s)" "b \<in> set (believers s)" "isHead b"
        "familyId b = fam_id f" "\<not> fam_isDeleted f \<longrightarrow> \<not> isDeleted b"
        "\<not> fam_isDeleted (if fam_id f = i then this1 else f)"
      then show "\<not> isDeleted (if familyId b = i \<and> isDeleted b
                        then b\<lparr>isDeleted := False, deletedAt := None\<rparr> else b)"
        by (auto split: if_splits)
    qed simp_all
    then show ?thesis using r by simp
  qed
qed

lemma map_key_preserved:
  "(\<And>x. x \<in> set xs \<Longrightarrow> key (f x) = key x) \<Longrightarrow> map key (map f xs) = map key xs"
  by (induction xs) auto

lemma Family_save_headId:
  "\<exists>s'. Family_save fam (fam\<lparr>headId := v\<rparr>) s = Inr s'"
  by (simp add: Family_save_def familySchema_preSave_def Let_def)

lemma headInv_assignNewHead:
  assumes inv: "headInv s"
    and side: "\<And>f. f \<in> set (families s) \<Longrightarrow> fam_id f = i \<Longrightarrow> headId f \<noteq> newHeadId"
  shows "headInv (snd (assignNewHead i newHeadId s))"
proof (cases "truthy newHeadId")
  case False
  then show ?thesis using inv by (simp add: assignNewHead_def fail_def)
next
  case True
  then obtain n where n: "newHeadId = Some n" by (auto simp: truthy_def split: option.splits)
  have db: "distinct (map bel_id (believers s))" and df: "distinct (map fam_id (families s))"
    using inv unfolding headInv_def by auto
  show ?thesis
  proof (cases "findOne (\<lambda>f. fam_id f = i \<and> \<not> fam_isDeleted f) (families s)")
    case None
    then show ?thesis using inv True by (simp add: assignNewHead_def fail_def)
  next
    case (Some fam)
    then have fam: "fam \<in> set (families s)" "fam_id fam = i" "\<not> fam_isDeleted fam"
      unfolding findOne_def by (auto dest: find_SomeD)
    show ?thesis
    proof (cases "findOne (\<lambda>b. bel_id b = n \<and> familyId b = fam_id fam \<and> \<not> isDeleted b) (believers s)")
      case None
      then show ?thesis using inv True Some n by (simp add: assignNewHead_def fail_def)
    next
      case newHead: (Some newHead)
      then have nh: "newHead \<in> set (believers s)" "bel_id newHead = n" "familyId newHead = i"
          "\<not> isDeleted newHead"
        unfolding findOne_def using fam(2) by (auto dest: find_SomeD)
      from inv fam(1) obtain hb where hb: "hb \<in> set (believers s)" "headId fam = Some (bel_id hb)"
          "familyId hb = fam_id fam" "isHead hb"
        unfolding headInv_def by blast
      let ?h = "bel_id hb"
      have hn: "?h \<noteq> n" using side[OF fam(1) fam(2)] hb(2) n by simp
      have onlyhead: "\<And>x. x \<in> set (believers s) \<Longrightarrow> isHead x \<Longrightarrow> familyId x = i \<Longrightarrow> x = hb"
      proof -
        fix x assume x: "x \<in> set (believers s)" "isHead x" "familyId x = i"
        from inv x(1) x(2) obtain g where g: "g \<in> set (families s)" "fam_id g = familyId x"
            "headId g = Some (bel_id x)"
          unfolding headInv_def by blast
        have "g = fam" using same_key_same_elem[OF df g(1) fam(1)] g(2) x(3) fam(2) by simp
        then have "bel_id x = ?h" using g(3) hb(2) by simp
        then show "x = hb" using same_key_same_elem[OF db x(1) hb(1)] by simp
      qed
      have nhead: "\<not> isHead newHead"
      proof
        assume "isHead newHead"
        then have "newHead = hb" using onlyhead[OF nh(1) _ nh(3)] by simp
        with nh(2) hn show False by simp
      qed
      let ?\<phi>1 = "\<lambda>x. if bel_id x = ?h then x\<lparr>isHead := False\<rparr> else x"
      let ?g2 = "\<lambda>b. b\<lparr>isHead := assign (isHead newHead) True (isHead b),
                        relationshipToHead := assign (relationshipToHead newHead) ''Self''
                                                (relationshipToHead b)\<rparr>"
      let ?\<phi> = "\<lambda>x. if bel_id x = n then x\<lparr>isHead := True, relationshipToHead := ''Self''\<rparr>
                   else if bel_id x = ?h then x\<lparr>isHead := False\<rparr> else x"
      let ?\<psi> = "\<lambda>f. if fam_id f = i then fam\<lparr>headId := Some n\<rparr> else f"
      let ?s1 = "Believer_findByIdAndUpdate ?h (\<lambda>b. b\<lparr>isHead := False\<rparr>) s"
      let ?s2 = "Believer_save n ?g2 ?s1"
      have b1: "believers ?s1 = map ?\<phi>1 (believers s)"
        using believers_update_map(1)[OF db] by simp
      have mk1: "map bel_id (map ?\<phi>1 (believers s)) = map bel_id (believers s)"
        by (rule map_key_preserved) simp
      have d1: "distinct (map bel_id (believers ?s1))"
        unfolding b1 mk1 by (rule db)
      have b2: "believers ?s2 = map (\<lambda>x. if bel_id x = n then ?g2 x else x) (believers ?s1)"
        using believers_update_map(2)[OF d1] by simp
      have b2': "believers ?s2 = map ?\<phi> (believers s)"
        unfolding b2 b1 map_map
      proof (rule map_cong[OF refl])
        fix x assume x: "x \<in> set (believers s)"
        show "((\<lambda>x. if bel_id x = n then ?g2 x else x) \<circ> ?\<phi>1) x = ?\<phi> x"
        proof (cases "bel_id x = n")
          case True
          then have "x = newHead" using same_key_same_elem[OF db x nh(1)] nh(2) by simp
          then show ?thesis using True hn nhead by (simp add: assign_def)
        next
          case False
          then show ?thesis by simp
        qed
      qed
      obtain s3 where s3: "Family_save fam (fam\<lparr>headId := Some n\<rparr>) ?s2 = Inr s3"
        using Family_save_headId by blast
      have df2: "distinct (map fam_id (families ?s2))" using df by simp
      from Family_save_Inr[OF s3 df2] obtain this1 where t:
        "fam_id this1 = i" "headId this1 = Some n" "fam_isDeleted this1 = fam_isDeleted fam"
        "believers s3 = believers ?s2"
        "families s3 = map (\<lambda>f. if fam_id f = i then this1 else f) (families s)"
        using fam(2) by auto
      have r: "snd (assignNewHead i newHeadId s) = s3"
        using True Some newHead n hb(2) s3 nh(2) by (simp add: assignNewHead_def Let_def)
      have B: "believers s3 = map ?\<phi> (believers s)" using t(4) b2' by simp
      have "headInv s3"
        unfolding headInv_def
      proof (intro conjI ballI impI)
        have mk: "map bel_id (map ?\<phi> (believers s)) = map bel_id (believers s)"
          by (rule map_key_preserved) simp
        show "distinct (map bel_id (believers s3))"
          unfolding B mk by (rule db)
        have mf: "map fam_id (map (\<lambda>f. if fam_id f = i then this1 else f) (families s))
                = map fam_id (families s)"
          by (rule map_key_preserved) (simp add: t(1))
        show "distinct (map fam_id (families s3))"
          unfolding t(5) mf by (rule df)
      next
        fix f' assume "f' \<in> set (families s3)"
        then obtain f where f: "f \<in> set (families s)" "f' = (if fam_id f = i then this1 else f)"
          unfolding t(5) by auto
        show "\<exists>b\<in>set (believers s3). headId f' = Some (bel_id b) \<and> familyId b = fam_id f' \<and>
                isHead b \<and> relationshipToHead b = ''Self'' \<and> (\<not> fam_isDeleted f' \<longrightarrow> \<not> isDeleted b)"
        proof (cases "fam_id f = i")
          case True
          have "newHead\<lparr>isHead := True, relationshipToHead := ''Self''\<rparr> \<in> set (believers s3)"
            unfolding B set_map by (rule image_eqI[of _ _ newHead]) (use nh in simp_all)
          then show ?thesis using True f(2) t nh
            by (intro bexI[of _ "newHead\<lparr>isHead := True, relationshipToHead := ''Self''\<rparr>"]) simp_all
        next
          case False
          from inv f(1) obtain b where b: "b \<in> set (believers s)" "headId f = Some (bel_id b)"
            "familyId b = fam_id f" "isHead b" "relationshipToHead b = ''Self''"
            "\<not> fam_isDeleted f \<longrightarrow> \<not> isDeleted b"
            unfolding headInv_def by blast
          have "bel_id b \<noteq> n"
          proof
            assume "bel_id b = n"
            then have "b = newHead" using same_key_same_elem[OF db b(1) nh(1)] nh(2) by simp
            with b(3) nh(3) False show False by simp
          qed
          moreover have "bel_id b \<noteq> ?h"
          proof
            assume "bel_id b = ?h"
            then have "b = hb" using same_key_same_elem[OF db b(1) hb(1)] by simp
            with b(3) hb(3) fam(2) False show False by simp
          qed
          ultimately have "b \<in> set (believers s3)"
            unfolding B set_map by (intro image_eqI[of _ _ b]) (use b(1) in simp_all)
          then show ?thesis using False f(2) b by (intro bexI[of _ b]) simp_all
        qed
      next
        fix b' assume b': "b' \<in> set (believers s3)" and h': "isHead b'"
        then obtain b where b: "b \<in> set (believers s)" "b' = ?\<phi> b" unfolding B by auto
        show "\<exists>f\<in>set (families s3). fam_id f = familyId b' \<and> headId f = Some (bel_id b')"
        proof (cases "bel_id b = n")
          case True
          then have bn: "b = newHead" using same_key_same_elem[OF db b(1) nh(1)] nh(2) by simp
          have "this1 \<in> set (families s3)" unfolding t(5) using fam(1) fam(2) by (auto simp: image_iff)
          then show ?thesis using True b(2) bn nh t by (intro bexI[of _ this1]) simp_all
        next
          case False
          then have nh': "bel_id b \<noteq> ?h" using h' b(2) by (auto split: if_splits)
          then have eq: "b' = b" using False b(2) by simp
          then have hb': "isHead b" using h' by simp
          from inv b(1) hb' obtain g where g: "g \<in> set (families s)" "fam_id g = familyId b"
              "headId g = Some (bel_id b)"
            unfolding headInv_def by blast
          have "fam_id g \<noteq> i"
          proof
            assume "fam_id g = i"
            then have "g = fam" using same_key_same_elem[OF df g(1) fam(1)] fam(2) by simp
            with g(3) hb(2) nh' show False by simp
          qed
          then have "g \<in> set (families s3)" unfolding t(5) using g(1) by (auto simp: image_iff)
          then show ?thesis using g eq by (intro bexI[of _ g]) simp_all
        qed
      qed
      then show ?thesis using r by simp
    qed
  qed
qed

lemma headInv_handle:
  assumes inv: "headInv s" and adm: "admissible r s"
  shows "headInv (handle r s)"
proof (cases r)
  case (AssignNewHead i newHeadId)
  have "\<And>f. f \<in> set (families s) \<Longrightarrow> fam_id f = i \<Longrightarrow> headId f \<noteq> newHeadId"
    using adm AssignNewHead by (simp add: list_all_iff)
  from headInv_assignNewHead[OF inv this] AssignNewHead show ?thesis by simp
qed (use inv adm in \<open>simp_all add: createFamily_store headInv_addMember headInv_updateBeliever
       headInv_deleteBeliever headInv_restoreBeliever headInv_deleteFamily headInv_restoreFamily\<close>)

lemma headInv_run:
  "headInv s \<Longrightarrow> admissibleTrace rs s \<Longrightarrow> headInv (run rs s)"
  by (induction rs arbitrary: s) (auto simp: headInv_handle)

subsection \<open>Head uniqueness\<close>

text \<open>
  C1, as the code has it. From a store that satisfies the invariant, after any sequence
  of admissible requests (creating a family, adding a member, updating a believer,
  assigning a new head other than the current one, soft-deleting and restoring believers
  and families), every non-deleted family has exactly one non-deleted believer who is a
  head and belongs to it, and that believer's relationship is Self; the invariant holds
  again.
\<close>

theorem head_unique_invariant:
  assumes "headInv s0" and "admissibleTrace rs s0"
  shows "headExactlyOne (run rs s0) \<and> headInv (run rs s0)"
  using headInv_run[OF assms] headInv_exactlyOne by blast

text \<open>
  On the example store: Sam is made head, then Mark is moved to the trash; the family
  still has exactly one non-deleted head.
\<close>

theorem head_unique_invariant_witness:
  "headInv ex_db
   \<and> admissibleTrace [AssignNewHead ''f1'' (Some ''c1''), DeleteBeliever ex_env ''h1''] ex_db
   \<and> headExactlyOne (run [AssignNewHead ''f1'' (Some ''c1''), DeleteBeliever ex_env ''h1''] ex_db)
   \<and> map isDeleted (believers (run [AssignNewHead ''f1'' (Some ''c1''), DeleteBeliever ex_env ''h1''] ex_db))
       = [True, False, False]"
proof -
  have i: "headInv ex_db" by (simp add: headInv_def ex_defs)
  have a: "admissibleTrace [AssignNewHead ''f1'' (Some ''c1''), DeleteBeliever ex_env ''h1''] ex_db"
    by (simp add: ex_defs)
  have e: "map isDeleted (believers (run [AssignNewHead ''f1'' (Some ''c1''), DeleteBeliever ex_env ''h1''] ex_db))
       = [True, False, False]"
    by (simp add: assignNewHead_def deleteBeliever_def truthy_def findOne_def ex_defs
        Believer_findByIdAndUpdate_def Believer_save_def assign_def Family_save_def
        familySchema_preSave_def familyCode_conflict_def Let_def ok_def)
  from head_unique_invariant[OF i a] i a e show ?thesis by simp
qed

text \<open>
  C1 as the claim words it fails on \<open>assignNewHead\<close>: it demotes the prior head with
  \<open>isHead: false\<close> only. On the example store, which satisfies all of the claimed
  invariant, making Sam the head answers 200 and leaves Mark, no longer a head, with the
  relationship Self: two believers of the family have it.
\<close>

theorem assignNewHead_keeps_Self_counterexample:
  "headExactlyOne ex_db \<and> nonHeadNeverSelf ex_db
   \<and> httpStatus (fst (assignNewHead ''f1'' (Some ''c1'') ex_db)) = 200
   \<and> map isHead (believers (snd (assignNewHead ''f1'' (Some ''c1'') ex_db))) = [False, False, True]
   \<and> map relationshipToHead (believers (snd (assignNewHead ''f1'' (Some ''c1'') ex_db)))
       = [''Self'', ''Wife'', ''Self'']
   \<and> \<not> nonHeadNeverSelf (snd (assignNewHead ''f1'' (Some ''c1'') ex_db))"
  by (simp add: headExactlyOne_def headsOf_def nonHeadNeverSelf_def assignNewHead_def truthy_def findOne_def
      ex_defs Believer_findByIdAndUpdate_def Believer_save_def assign_def Family_save_def
      familySchema_preSave_def familyCode_conflict_def Let_def ok_def httpStatus_def)

text \<open>
  Why a request that names the current head again is not admissible: the stored
  \<open>isHead\<close> is first set to false, and the assignment \<open>newHead.isHead = true\<close>, on a
  document loaded with \<open>isHead\<close> true, modifies nothing that \<open>save()\<close> would write.
  The family is left without a head.
\<close>

lemma assignNewHead_same_head:
  "httpStatus (fst (assignNewHead ''f1'' (Some ''h1'') ex_db)) = 200
   \<and> map isHead (believers (snd (assignNewHead ''f1'' (Some ''h1'') ex_db))) = [False, False, False]"
  by (simp add: assignNewHead_def truthy_def findOne_def
      ex_defs Believer_findByIdAndUpdate_def Believer_save_def assign_def Family_save_def
      familySchema_preSave_def familyCode_conflict_def Let_def ok_def httpStatus_def)

end
